theory Spec2Isabelle
  imports Complex_Main "HOL-Library.Monad_Syntax"
begin

section \<open>Configuration (tree/config.py)\<close>

definition INTERACTIVE_CONTROL_TYPE_NAMES :: "string list" where
  "INTERACTIVE_CONTROL_TYPE_NAMES =
     [''ButtonControl'', ''ListItemControl'', ''MenuItemControl'', ''EditControl'',
      ''CheckBoxControl'', ''RadioButtonControl'', ''ComboBoxControl'', ''HyperlinkControl'',
      ''SplitButtonControl'', ''TabItemControl'', ''TreeItemControl'', ''DataItemControl'',
      ''HeaderItemControl'', ''TextBoxControl'', ''SpinnerControl'', ''ScrollBarControl'']"

definition DOCUMENT_CONTROL_TYPE_NAMES :: "string list" where
  "DOCUMENT_CONTROL_TYPE_NAMES = [''DocumentControl'']"

definition INFORMATIVE_CONTROL_TYPE_NAMES :: "string list" where
  "INFORMATIVE_CONTROL_TYPE_NAMES = [''TextControl'', ''ImageControl'', ''StatusBarControl'']"

definition DEFAULT_ACTIONS :: "string list" where
  "DEFAULT_ACTIONS = [''Click'', ''Press'', ''Jump'', ''Check'', ''Uncheck'', ''Double Click'']"

definition THREAD_MAX_RETRIES :: nat where
  "THREAD_MAX_RETRIES = 3"

text \<open>
  The timeouts are read from the environment when the module is loaded, so they are
  parameters of the model. \<open>BROWSER_NAMES\<close> and \<open>EXCLUDED_APPS\<close> come from
  \<^verbatim>\<open>windows_mcp.desktop.config\<close> and \<open>exclude_system_windows\<close> from the environment
  variable \<^verbatim>\<open>WINDOWS_MCP_EXCLUDE_SYSTEM_WINDOWS\<close>; they are parameters as well.
  Times are seconds, as idealised real numbers.
\<close>

record Config =
  TREE_STATE_TIMEOUT_S :: real
  TREE_STATE_TIMEOUT_DOM_S :: real
  ROOT_ENUM_TIMEOUT_S :: real
  UIA_TIMEOUT_COOLDOWN_S :: real
  BROWSER_NAMES :: "string list"
  EXCLUDED_APPS :: "string list"
  exclude_system_windows :: bool

definition default_config :: Config where
  "default_config =
     \<lparr>TREE_STATE_TIMEOUT_S = 6, TREE_STATE_TIMEOUT_DOM_S = 10, ROOT_ENUM_TIMEOUT_S = 2,
      UIA_TIMEOUT_COOLDOWN_S = 15, BROWSER_NAMES = [], EXCLUDED_APPS = [],
      exclude_system_windows = False\<rparr>"

section \<open>Python string methods used by the traversal (ASCII)\<close>

definition whitespace :: string where
  "whitespace = [CHR 0x09, CHR 0x0A, CHR 0x0B, CHR 0x0C, CHR 0x0D,
                 CHR 0x1C, CHR 0x1D, CHR 0x1E, CHR 0x1F, CHR 0x20]"

definition is_space :: "char \<Rightarrow> bool" where
  "is_space c = (c \<in> set whitespace)"

definition strip :: "string \<Rightarrow> string" where
  "strip s = rev (dropWhile is_space (rev (dropWhile is_space s)))"

definition ascii_lowercase :: string where
  "ascii_lowercase = ''abcdefghijklmnopqrstuvwxyz''"

definition ascii_uppercase :: string where
  "ascii_uppercase = ''ABCDEFGHIJKLMNOPQRSTUVWXYZ''"

definition is_lower :: "char \<Rightarrow> bool" where
  "is_lower c = (c \<in> set ascii_lowercase)"

definition is_upper :: "char \<Rightarrow> bool" where
  "is_upper c = (c \<in> set ascii_uppercase)"

definition upper :: "char \<Rightarrow> char" where
  "upper c = (case map_of (zip ascii_lowercase ascii_uppercase) c of Some u \<Rightarrow> u | None \<Rightarrow> c)"

definition lower :: "char \<Rightarrow> char" where
  "lower c = (case map_of (zip ascii_uppercase ascii_lowercase) c of Some l \<Rightarrow> l | None \<Rightarrow> c)"

text \<open>\<open>str.title()\<close>: a cased character is upper-cased when the previous character is
  not cased and lower-cased otherwise.\<close>

fun title_from :: "bool \<Rightarrow> string \<Rightarrow> string" where
  "title_from prev [] = []"
| "title_from prev (c # cs) =
     (if is_lower c \<or> is_upper c
      then (if prev then lower c else upper c) # title_from True cs
      else c # title_from False cs)"

definition title :: "string \<Rightarrow> string" where
  "title s = title_from False s"

definition capitalize :: "string \<Rightarrow> string" where
  "capitalize s = (case s of [] \<Rightarrow> [] | c # cs \<Rightarrow> upper c # map lower cs)"

section \<open>Data model\<close>

text \<open>\<open>uiautomation.Rect\<close> (third-party): four integer edges;
  \<open>width()\<close> is \<open>right - left\<close>, \<open>height()\<close> is \<open>bottom - top\<close>,
  \<open>isempty()\<close> is \<open>width() == 0 or height() == 0\<close>.\<close>

record Rect =
  rect_left :: int
  rect_top :: int
  rect_right :: int
  rect_bottom :: int

definition rect_width :: "Rect \<Rightarrow> int" where
  "rect_width r = rect_right r - rect_left r"

definition rect_height :: "Rect \<Rightarrow> int" where
  "rect_height r = rect_bottom r - rect_top r"

definition isempty :: "Rect \<Rightarrow> bool" where
  "isempty r = (rect_width r = 0 \<or> rect_height r = 0)"

record BoundingBox =
  bb_left :: int
  bb_top :: int
  bb_right :: int
  bb_bottom :: int
  bb_width :: int
  bb_height :: int

record Center =
  center_x :: int
  center_y :: int

text \<open>Modelled from the spec: \<open>BoundingBox.get_center\<close> lives in
  \<^verbatim>\<open>windows_mcp.tree.views\<close>, which is not among the sources. The spec (4.5) gives the
  center as the midpoint of the box, also of a degenerate one.\<close>

definition get_center :: "BoundingBox \<Rightarrow> Center" where
  "get_center b = \<lparr>center_x = bb_left b + bb_width b div 2, center_y = bb_top b + bb_height b div 2\<rparr>"

record TreeElementNode =
  ten_name :: string
  ten_control_type :: string
  ten_value :: "string option"
  ten_shortcut :: string
  ten_bounding_box :: BoundingBox
  ten_center :: Center
  ten_app_name :: string
  ten_is_focused :: bool

record ScrollElementNode =
  sen_name :: string
  sen_control_type :: string
  sen_app_name :: string
  sen_bounding_box :: BoundingBox
  sen_center :: Center
  sen_horizontal_scrollable :: bool
  sen_horizontal_scroll_percent :: real
  sen_vertical_scrollable :: bool
  sen_vertical_scroll_percent :: real
  sen_is_focused :: bool

record TextElementNode =
  tn_text :: string

record DOMInfo =
  horizontal_scrollable :: bool
  horizontal_scroll_percent :: real
  vertical_scrollable :: bool
  vertical_scroll_percent :: real

subsection \<open>The provider's nodes\<close>

text \<open>
  A \<open>Control\<close> is a node of the provider's tree as one job sees it. Every accessor of
  the provider may raise: an accessor is an \<open>option\<close>, and \<open>None\<close> is the raised
  exception. Where Python's own \<open>None\<close> is a possible value (no scroll pattern, a
  legacy value that is \<open>None\<close>) the option is nested.
\<close>

record ScrollPattern =
  HorizontallyScrollable :: "bool option"
  HorizontalScrollPercent :: "real option"
  VerticallyScrollable :: "bool option"
  VerticalScrollPercent :: "real option"

record LegacyIAccessiblePattern =
  DefaultAction :: "string option"
  Value :: "string option option"

datatype PyClass = ImageControl | WindowControl | OtherControl

record Attrs =
  py_class :: PyClass
  Name :: "string option"
  ClassName :: "string option"
  ControlTypeName :: "string option"
  LocalizedControlType :: "string option"
  AutomationId :: "string option"
  AcceleratorKey :: "string option"
  ProcessName :: "string option"
  NativeWindowHandle :: "int option"
  IsOffscreen :: "bool option"
  IsControlElement :: "bool option"
  IsEnabled :: "bool option"
  IsKeyboardFocusable :: "bool option"
  HasKeyboardFocus :: "bool option"
  IsModal :: "bool option"
  BoundingRectangle :: "Rect option"
  GetScrollPattern :: "ScrollPattern option option"
  GetLegacyIAccessiblePattern :: "LegacyIAccessiblePattern option"
  random_point :: "(int \<times> int) option"
  children_raise :: bool

datatype Control = Control (attrs: Attrs) (kids: "Control list")

definition GetChildren :: "Control \<Rightarrow> Control list option" where
  "GetChildren node = (if children_raise (attrs node) then None else Some (kids node))"

definition GetFirstChildControl :: "Control \<Rightarrow> Control option option" where
  "GetFirstChildControl node =
     (if children_raise (attrs node) then None
      else Some (case kids node of [] \<Rightarrow> None | k # _ \<Rightarrow> Some k))"

text \<open>\<open>try: ... except Exception: return False\<close>\<close>

definition except_False :: "bool option \<Rightarrow> bool" where
  "except_False r = (case r of None \<Rightarrow> False | Some b \<Rightarrow> b)"

section \<open>GeometryResolver: \<open>Tree.iou_bounding_box\<close>\<close>

definition zero_box :: BoundingBox where
  "zero_box = \<lparr>bb_left = 0, bb_top = 0, bb_right = 0, bb_bottom = 0, bb_width = 0, bb_height = 0\<rparr>"

definition iou_bounding_box :: "BoundingBox \<Rightarrow> Rect \<Rightarrow> Rect \<Rightarrow> BoundingBox" where
  "iou_bounding_box screen_box window_box element_box =
     (let intersection_left = max (rect_left window_box) (rect_left element_box);
          intersection_top = max (rect_top window_box) (rect_top element_box);
          intersection_right = min (rect_right window_box) (rect_right element_box);
          intersection_bottom = min (rect_bottom window_box) (rect_bottom element_box);
          intersection_left = max (bb_left screen_box) intersection_left;
          intersection_top = max (bb_top screen_box) intersection_top;
          intersection_right = min (bb_right screen_box) intersection_right;
          intersection_bottom = min (bb_bottom screen_box) intersection_bottom
      in if intersection_right > intersection_left \<and> intersection_bottom > intersection_top
         then \<lparr>bb_left = intersection_left, bb_top = intersection_top,
               bb_right = intersection_right, bb_bottom = intersection_bottom,
               bb_width = intersection_right - intersection_left,
               bb_height = intersection_bottom - intersection_top\<rparr>
         else zero_box)"

text \<open>\<open>Tree.__init__\<close>: the screen box of a screen of the given size.\<close>

definition screen_box_of :: "int \<Rightarrow> int \<Rightarrow> BoundingBox" where
  "screen_box_of w h =
     \<lparr>bb_left = 0, bb_top = 0, bb_right = w, bb_bottom = h, bb_width = w, bb_height = h\<rparr>"

text \<open>The viewport box is stored as a \<open>BoundingBox\<close> and passed to \<open>iou_bounding_box\<close>
  in the place of a \<open>Rect\<close>: only its four edges are read.\<close>

definition box_as_rect :: "BoundingBox \<Rightarrow> Rect" where
  "box_as_rect b =
     \<lparr>rect_left = bb_left b, rect_top = bb_top b, rect_right = bb_right b, rect_bottom = bb_bottom b\<rparr>"

definition box_of_rect :: "Rect \<Rightarrow> BoundingBox" where
  "box_of_rect r =
     \<lparr>bb_left = rect_left r, bb_top = rect_top r, bb_right = rect_right r, bb_bottom = rect_bottom r,
      bb_width = rect_width r, bb_height = rect_height r\<rparr>"

section \<open>NodeClassifier: the predicates nested in \<open>Tree.get_nodes\<close>\<close>

definition is_element_visible :: "Control \<Rightarrow> bool option" where
  "is_element_visible node = do {
     is_control \<leftarrow> IsControlElement (attrs node);
     box \<leftarrow> BoundingRectangle (attrs node);
     if isempty box then Some False
     else do {
       let area = rect_width box * rect_height box;
       off \<leftarrow> IsOffscreen (attrs node);
       is_offscreen \<leftarrow> (if \<not> off then Some True
                        else do { ctn \<leftarrow> ControlTypeName (attrs node);
                                  Some (ctn \<in> set [''EditControl'']) });
       Some (area > 0 \<and> is_offscreen \<and> is_control)
     }
   }"

definition is_element_enabled :: "Control \<Rightarrow> bool" where
  "is_element_enabled node = except_False (IsEnabled (attrs node))"

definition is_default_action :: "Control \<Rightarrow> bool option" where
  "is_default_action node = do {
     legacy_pattern \<leftarrow> GetLegacyIAccessiblePattern (attrs node);
     default_action \<leftarrow> DefaultAction legacy_pattern;
     Some (title default_action \<in> set DEFAULT_ACTIONS)
   }"

definition is_element_image :: "Control \<Rightarrow> bool option" where
  "is_element_image node =
     (if py_class (attrs node) = ImageControl
      then do {
        lct \<leftarrow> LocalizedControlType (attrs node);
        if lct = ''graphic'' then Some True
        else do { kf \<leftarrow> IsKeyboardFocusable (attrs node); Some (\<not> kf) }
      }
      else Some False)"

definition is_element_text :: "Control \<Rightarrow> bool" where
  "is_element_text node = except_False (do {
     ctn \<leftarrow> ControlTypeName (attrs node);
     if ctn \<in> set INFORMATIVE_CONTROL_TYPE_NAMES
     then do {
       visible \<leftarrow> is_element_visible node;
       if visible \<and> is_element_enabled node
       then do { image \<leftarrow> is_element_image node; Some (\<not> image) }
       else Some False
     }
     else Some False
   })"

definition is_window_modal :: "Control \<Rightarrow> bool" where
  "is_window_modal node = except_False (IsModal (attrs node))"

definition is_keyboard_focusable :: "Control \<Rightarrow> bool" where
  "is_keyboard_focusable node = except_False (do {
     ctn \<leftarrow> ControlTypeName (attrs node);
     if ctn \<in> set [''EditControl'', ''ButtonControl'', ''CheckBoxControl'',
                    ''RadioButtonControl'', ''TabItemControl'']
     then Some True
     else IsKeyboardFocusable (attrs node)
   })"

definition element_has_child_element :: "Control \<Rightarrow> string \<Rightarrow> string \<Rightarrow> bool option" where
  "element_has_child_element node control_type child_control_type = do {
     lct \<leftarrow> LocalizedControlType (attrs node);
     if lct = control_type
     then do {
       first_child \<leftarrow> GetFirstChildControl node;
       case first_child of
         None \<Rightarrow> Some False
       | Some fc \<Rightarrow> do { clct \<leftarrow> LocalizedControlType (attrs fc);
                         Some (clct = child_control_type) }
     }
     else Some False
   }"

definition is_element_scrollable :: "Control \<Rightarrow> bool" where
  "is_element_scrollable node = except_False (do {
     ctn \<leftarrow> ControlTypeName (attrs node);
     if ctn \<in> set INTERACTIVE_CONTROL_TYPE_NAMES \<union> set INFORMATIVE_CONTROL_TYPE_NAMES
     then Some False
     else do {
       off \<leftarrow> IsOffscreen (attrs node);
       if off then Some False
       else do {
         scroll_pattern \<leftarrow> GetScrollPattern (attrs node);
         case scroll_pattern of
           None \<Rightarrow> Some False
         | Some sp \<Rightarrow> VerticallyScrollable sp
       }
     }
   })"

text \<open>Every branch of \<open>is_element_interactive\<close> starts by reading \<open>ControlTypeName\<close>
  (the first one after \<open>is_browser\<close>, the second after \<open>not is_browser\<close>), so the
  attribute is read once here.\<close>

definition is_element_interactive :: "bool \<Rightarrow> Control \<Rightarrow> bool" where
  "is_element_interactive is_browser node = except_False (do {
     ctn \<leftarrow> ControlTypeName (attrs node);
     if is_browser \<and> ctn \<in> set [''DataItemControl'', ''ListItemControl'']
        \<and> \<not> is_keyboard_focusable node
     then Some False
     else if \<not> is_browser \<and> ctn = ''ImageControl'' \<and> is_keyboard_focusable node
     then Some True
     else if ctn \<in> set INTERACTIVE_CONTROL_TYPE_NAMES \<union> set DOCUMENT_CONTROL_TYPE_NAMES
     then do {
       visible \<leftarrow> is_element_visible node;
       if visible \<and> is_element_enabled node
       then do { image \<leftarrow> is_element_image node;
                 Some (\<not> image \<or> is_keyboard_focusable node) }
       else Some False
     }
     else if ctn = ''GroupControl''
     then (if is_browser
           then do {
             visible \<leftarrow> is_element_visible node;
             if visible \<and> is_element_enabled node
             then do { da \<leftarrow> is_default_action node;
                       Some (da \<or> is_keyboard_focusable node) }
             else Some False
           }
           else Some False)
     else Some False
   })"

section \<open>WindowTraverser: \<open>Tree.get_nodes\<close>\<close>

text \<open>
  The closure variables of \<open>get_nodes\<close> that the nested functions read (\<open>Env\<close>), the four
  result lists they append to (\<open>Buffers\<close>), and the two fields of the \<open>Tree\<close> object that
  the traversal assigns (\<open>Shared\<close>). The buffers are lost when the job raises; the fields
  of the object keep what was assigned before the exception.
\<close>

record Env =
  e_screen_box :: BoundingBox
  e_is_browser :: bool
  e_app_name :: string
  e_window_bounding_box :: Rect

record Buffers =
  interactive_nodes :: "TreeElementNode list"
  dom_interactive_nodes :: "TreeElementNode list"
  scrollable_nodes :: "ScrollElementNode list"
  dom_informative_nodes :: "TextElementNode list"

record Shared =
  dom_info :: "DOMInfo option"
  dom_bounding_box :: "BoundingBox option"

definition empty_buffers :: Buffers where
  "empty_buffers = \<lparr>interactive_nodes = [], dom_interactive_nodes = [],
                     scrollable_nodes = [], dom_informative_nodes = []\<rparr>"

text \<open>\<open>list.pop()\<close>: raises on the empty list.\<close>

definition pop :: "'a list \<Rightarrow> 'a list option" where
  "pop xs = (if xs = [] then None else Some (butlast xs))"

subsection \<open>DomReconciler: \<open>dom_correction\<close>\<close>

text \<open>The \<open>while\<close> loop of \<open>dom_correction\<close> down the chain of first children. \<open>None\<close>
  is the \<open>return None\<close> of the loop (an interactive type on the chain, or an exception,
  which the loop catches); \<open>Some child\<close> is the childless node the loop stops at.\<close>

fun first_child_chain :: "Control \<Rightarrow> Control option" where
  "first_child_chain (Control a ks) =
     (if children_raise a then None
      else case ks of
             [] \<Rightarrow> Some (Control a ks)
           | k # _ \<Rightarrow>
               (case ControlTypeName a of
                  None \<Rightarrow> None
                | Some ctn \<Rightarrow>
                    if ctn \<in> set INTERACTIVE_CONTROL_TYPE_NAMES then None
                    else first_child_chain k))"

text \<open>The element that \<open>dom_correction\<close> appends for a keyboard-focusable group whose
  chain of first children ends in the text node \<open>child\<close>.\<close>

definition group_element :: "Env \<Rightarrow> Shared \<Rightarrow> Control \<Rightarrow> Control \<Rightarrow> TreeElementNode option" where
  "group_element env sh node child = do {
     legacy_pattern \<leftarrow> GetLegacyIAccessiblePattern (attrs node);
     value \<leftarrow> Value legacy_pattern;
     element_bounding_box \<leftarrow> BoundingRectangle (attrs node);
     dom_box \<leftarrow> dom_bounding_box sh;
     let bounding_box = iou_bounding_box (e_screen_box env)
                          (box_as_rect dom_box) element_bounding_box;
     is_focused \<leftarrow> HasKeyboardFocus (attrs node);
     child_name \<leftarrow> Name (attrs child);
     lct \<leftarrow> LocalizedControlType (attrs node);
     shortcut \<leftarrow> AcceleratorKey (attrs node);
     Some \<lparr>ten_name = strip child_name, ten_control_type = lct,
           ten_value = value, ten_shortcut = shortcut,
           ten_bounding_box = bounding_box, ten_center = get_center bounding_box,
           ten_app_name = e_app_name env, ten_is_focused = is_focused\<rparr>
   }"

text \<open>The element that \<open>dom_correction\<close> appends for a link whose first child is the
  heading \<open>heading\<close> (the source rebinds \<open>node\<close> to it).\<close>

definition link_element :: "Env \<Rightarrow> Shared \<Rightarrow> Control \<Rightarrow> TreeElementNode option" where
  "link_element env sh heading = do {
     legacy_pattern \<leftarrow> GetLegacyIAccessiblePattern (attrs heading);
     value \<leftarrow> Value legacy_pattern;
     element_bounding_box \<leftarrow> BoundingRectangle (attrs heading);
     dom_box \<leftarrow> dom_bounding_box sh;
     let bounding_box = iou_bounding_box (e_screen_box env)
                          (box_as_rect dom_box) element_bounding_box;
     is_focused \<leftarrow> HasKeyboardFocus (attrs heading);
     heading_name \<leftarrow> Name (attrs heading);
     shortcut \<leftarrow> AcceleratorKey (attrs heading);
     Some \<lparr>ten_name = strip heading_name, ten_control_type = ''link'',
           ten_value = Some (strip heading_name), ten_shortcut = shortcut,
           ten_bounding_box = bounding_box, ten_center = get_center bounding_box,
           ten_app_name = e_app_name env, ten_is_focused = is_focused\<rparr>
   }"

text \<open>The \<open>GroupControl\<close> branch of \<open>dom_correction\<close> after its \<open>pop()\<close>.\<close>

definition group_correction ::
  "Env \<Rightarrow> Shared \<Rightarrow> Control \<Rightarrow> TreeElementNode list \<Rightarrow> TreeElementNode list option" where
  "group_correction env sh node popped =
     (if is_keyboard_focusable node
      then (case first_child_chain node of
              None \<Rightarrow> Some popped
            | Some child \<Rightarrow> do {
                child_ctn \<leftarrow> ControlTypeName (attrs child);
                if child_ctn \<noteq> ''TextControl'' then Some popped
                else do { e \<leftarrow> group_element env sh node child; Some (popped @ [e]) }
              })
      else Some popped)"

text \<open>The last branch of \<open>dom_correction\<close>, a link that wraps a heading, after its
  \<open>pop()\<close>.\<close>

definition link_correction ::
  "Env \<Rightarrow> Shared \<Rightarrow> Control \<Rightarrow> TreeElementNode list \<Rightarrow> TreeElementNode list option" where
  "link_correction env sh node popped = do {
     first_child \<leftarrow> GetFirstChildControl node;
     heading \<leftarrow> first_child;
     e \<leftarrow> link_element env sh heading;
     Some (popped @ [e])
   }"

definition dom_correction ::
  "Env \<Rightarrow> Shared \<Rightarrow> Control \<Rightarrow> TreeElementNode list \<Rightarrow> TreeElementNode list option" where
  "dom_correction env sh node dom_nodes = do {
     list_item_link \<leftarrow> element_has_child_element node ''list item'' ''link'';
     item_link \<leftarrow> (if list_item_link then Some True
                    else element_has_child_element node ''item'' ''link'');
     if item_link then pop dom_nodes
     else do {
       ctn \<leftarrow> ControlTypeName (attrs node);
       if ctn = ''GroupControl''
       then do { popped \<leftarrow> pop dom_nodes; group_correction env sh node popped }
       else do {
         link_heading \<leftarrow> element_has_child_element node ''link'' ''heading'';
         if link_heading
         then do { popped \<leftarrow> pop dom_nodes; link_correction env sh node popped }
         else Some dom_nodes
       }
     }
   }"

subsection \<open>One node of \<open>tree_traversal\<close>\<close>

text \<open>The skip test at the head of \<open>tree_traversal\<close>; \<open>and\<close> reads the next attribute
  only when the ones before it hold.\<close>

definition should_skip :: "Control \<Rightarrow> bool option" where
  "should_skip node = do {
     off \<leftarrow> IsOffscreen (attrs node);
     if \<not> off then Some False
     else do {
       ctn \<leftarrow> ControlTypeName (attrs node);
       if ctn \<in> set [''GroupControl'', ''EditControl'', ''TitleBarControl''] then Some False
       else do {
         cn \<leftarrow> ClassName (attrs node);
         Some (cn \<notin> set [''Popup'', ''Windows.UI.Core.CoreComponentInputSource''])
       }
     }
   }"

text \<open>The name of a scrollable element:
  \<open>Name.strip() or AutomationId or LocalizedControlType.capitalize() or "''"\<close>.\<close>

definition scroll_name :: "Control \<Rightarrow> string option" where
  "scroll_name node = do {
     name \<leftarrow> Name (attrs node);
     if strip name \<noteq> [] then Some (strip name)
     else do {
       aid \<leftarrow> AutomationId (attrs node);
       if aid \<noteq> [] then Some aid
       else do {
         lct \<leftarrow> LocalizedControlType (attrs node);
         Some (if capitalize lct \<noteq> [] then capitalize lct else [CHR 0x27, CHR 0x27])
       }
     }
   }"

text \<open>The \<open>ScrollElementNode\<close> appended for a scrollable node. Its box is the provider's
  rectangle as it is. \<open>random_point\<close> is what \<open>random_point_within_bounding_box\<close> returned
  for the node (a function of \<^verbatim>\<open>windows_mcp.tree.utils\<close> that draws random numbers).\<close>

definition scroll_element :: "Env \<Rightarrow> Control \<Rightarrow> ScrollElementNode option" where
  "scroll_element env node = do {
     pattern \<leftarrow> GetScrollPattern (attrs node);
     box \<leftarrow> BoundingRectangle (attrs node);
     xy \<leftarrow> random_point (attrs node);
     name \<leftarrow> scroll_name node;
     lct \<leftarrow> LocalizedControlType (attrs node);
     scroll_pattern \<leftarrow> pattern;
     hs \<leftarrow> HorizontallyScrollable scroll_pattern;
     hp \<leftarrow> (if hs then HorizontalScrollPercent scroll_pattern else Some 0);
     vs \<leftarrow> VerticallyScrollable scroll_pattern;
     vp \<leftarrow> (if vs then VerticalScrollPercent scroll_pattern else Some 0);
     is_focused \<leftarrow> HasKeyboardFocus (attrs node);
     Some \<lparr>sen_name = name, sen_control_type = title lct, sen_app_name = e_app_name env,
           sen_bounding_box = box_of_rect box,
           sen_center = \<lparr>center_x = fst xy, center_y = snd xy\<rparr>,
           sen_horizontal_scrollable = hs, sen_horizontal_scroll_percent = hp,
           sen_vertical_scrollable = vs, sen_vertical_scroll_percent = vp,
           sen_is_focused = is_focused\<rparr>
   }"

text \<open>The \<open>TreeElementNode\<close> built for an interactive node, clipped to the reference
  rectangle (the window's box, or the captured viewport in a document).\<close>

definition tree_element :: "Env \<Rightarrow> Control \<Rightarrow> Rect \<Rightarrow> TreeElementNode option" where
  "tree_element env node reference_box = do {
     legacy_pattern \<leftarrow> GetLegacyIAccessiblePattern (attrs node);
     legacy_value \<leftarrow> Value legacy_pattern;
     let value = (case legacy_value of Some v \<Rightarrow> strip v | None \<Rightarrow> []);
     is_focused \<leftarrow> HasKeyboardFocus (attrs node);
     name \<leftarrow> Name (attrs node);
     element_bounding_box \<leftarrow> BoundingRectangle (attrs node);
     let bounding_box = iou_bounding_box (e_screen_box env) reference_box element_bounding_box;
     lct \<leftarrow> LocalizedControlType (attrs node);
     shortcut \<leftarrow> AcceleratorKey (attrs node);
     Some \<lparr>ten_name = strip name, ten_control_type = title lct, ten_value = Some value,
           ten_shortcut = shortcut, ten_bounding_box = bounding_box,
           ten_center = get_center bounding_box, ten_app_name = e_app_name env,
           ten_is_focused = is_focused\<rparr>
   }"

text \<open>The body of \<open>tree_traversal\<close> between the skip test and the loop over the
  children: first the \<open>if is_element_scrollable(node)\<close> statement, then the
  \<open>if is_element_interactive(node) ... elif is_element_text(node)\<close> statement.\<close>

definition append_scrollable :: "Env \<Rightarrow> Control \<Rightarrow> Buffers \<Rightarrow> Buffers option" where
  "append_scrollable env node b =
     (if is_element_scrollable node
      then do { s \<leftarrow> scroll_element env node;
                Some (b\<lparr>scrollable_nodes := scrollable_nodes b @ [s]\<rparr>) }
      else Some b)"

definition append_classified ::
  "Env \<Rightarrow> Shared \<Rightarrow> Control \<Rightarrow> bool \<Rightarrow> Buffers \<Rightarrow> Buffers option" where
  "append_classified env sh node is_dom b =
     (if is_element_interactive (e_is_browser env) node
      then (if e_is_browser env \<and> is_dom
            then do {
              dom_box \<leftarrow> dom_bounding_box sh;
              tree_node \<leftarrow> tree_element env node (box_as_rect dom_box);
              corrected \<leftarrow> dom_correction env sh node (dom_interactive_nodes b @ [tree_node]);
              Some (b\<lparr>dom_interactive_nodes := corrected\<rparr>)
            }
            else do {
              tree_node \<leftarrow> tree_element env node (e_window_bounding_box env);
              Some (b\<lparr>interactive_nodes := interactive_nodes b @ [tree_node]\<rparr>)
            })
      else if is_element_text node
      then do {
        name \<leftarrow> Name (attrs node);
        Some (b\<lparr>dom_informative_nodes := dom_informative_nodes b @ [\<lparr>tn_text = strip name\<rparr>]\<rparr>)
      }
      else Some b)"

definition visit_node :: "Env \<Rightarrow> Shared \<Rightarrow> Control \<Rightarrow> bool \<Rightarrow> Buffers \<Rightarrow> Buffers option" where
  "visit_node env sh node is_dom b = do {
     b1 \<leftarrow> append_scrollable env node b;
     append_classified env sh node is_dom b1
   }"

subsection \<open>The loop over the children\<close>

definition is_root_web_area :: "Env \<Rightarrow> Control \<Rightarrow> bool option" where
  "is_root_web_area env child =
     (if e_is_browser env
      then do { aid \<leftarrow> AutomationId (attrs child); Some (aid = ''RootWebArea'') }
      else Some False)"

definition dom_info_of :: "ScrollPattern \<Rightarrow> DOMInfo option" where
  "dom_info_of scroll_pattern = do {
     hs \<leftarrow> HorizontallyScrollable scroll_pattern;
     hp \<leftarrow> (if hs then HorizontalScrollPercent scroll_pattern else Some 0);
     vs \<leftarrow> VerticallyScrollable scroll_pattern;
     vp \<leftarrow> (if vs then VerticalScrollPercent scroll_pattern else Some 0);
     Some \<lparr>horizontal_scrollable = hs, horizontal_scroll_percent = hp,
           vertical_scrollable = vs, vertical_scroll_percent = vp\<rparr>
   }"

text \<open>The clearing decision for a child that is a \<open>WindowControl\<close>. The product
  \<open>0.8 * width\<close> is taken in the real numbers.\<close>

definition dialog_clear :: "Shared \<Rightarrow> bool \<Rightarrow> Control \<Rightarrow> Buffers \<Rightarrow> Buffers option" where
  "dialog_clear sh is_dom child b = do {
     off \<leftarrow> IsOffscreen (attrs child);
     if \<not> off
     then (if is_dom
           then do {
             bounding_box \<leftarrow> BoundingRectangle (attrs child);
             dom_box \<leftarrow> dom_bounding_box sh;
             if real_of_int (rect_width bounding_box) > 0.8 * real_of_int (bb_width dom_box)
             then Some (b\<lparr>dom_interactive_nodes := []\<rparr>)
             else Some b
           }
           else (if is_window_modal child
                 then Some (b\<lparr>interactive_nodes := []\<rparr>)
                 else Some b))
     else Some b
   }"

text \<open>What the loop does with one child before it recurses into it: the buffers, and the
  \<open>is_dom\<close> and \<open>is_dialog\<close> flags of the recursive call (\<open>None\<close> when an accessor
  raised), and the fields of the object after the step.\<close>

definition enter_child ::
  "Env \<Rightarrow> bool \<Rightarrow> bool \<Rightarrow> Control \<Rightarrow> Buffers \<Rightarrow> Shared
     \<Rightarrow> (Buffers \<times> bool \<times> bool) option \<times> Shared" where
  "enter_child env is_dom is_dialog child b sh =
     (case is_root_web_area env child of
        None \<Rightarrow> (None, sh)
      | Some True \<Rightarrow>
          (case BoundingRectangle (attrs child) of
             None \<Rightarrow> (None, sh)
           | Some bounding_box \<Rightarrow>
               (let sh1 = sh\<lparr>dom_bounding_box := Some (box_of_rect bounding_box)\<rparr>
                in case do { pattern \<leftarrow> GetScrollPattern (attrs child);
                             scroll_pattern \<leftarrow> pattern;
                             dom_info_of scroll_pattern } of
                     None \<Rightarrow> (None, sh1)
                   | Some info \<Rightarrow> (Some (b, True, is_dialog), sh1\<lparr>dom_info := Some info\<rparr>)))
      | Some False \<Rightarrow>
          (if py_class (attrs child) = WindowControl
           then (case dialog_clear sh is_dom child b of
                   None \<Rightarrow> (None, sh)
                 | Some b' \<Rightarrow> (Some (b', is_dom, True), sh))
           else (Some (b, is_dom, is_dialog), sh)))"

function tree_traversal ::
    "Env \<Rightarrow> Control \<Rightarrow> bool \<Rightarrow> bool \<Rightarrow> Buffers \<Rightarrow> Shared \<Rightarrow> Buffers option \<times> Shared"
  and traverse_children ::
    "Env \<Rightarrow> bool \<Rightarrow> bool \<Rightarrow> Control list \<Rightarrow> Buffers \<Rightarrow> Shared \<Rightarrow> Buffers option \<times> Shared"
where
  "tree_traversal env (Control a ks) is_dom is_dialog b sh =
     (case should_skip (Control a ks) of
        None \<Rightarrow> (None, sh)
      | Some True \<Rightarrow> (Some b, sh)
      | Some False \<Rightarrow>
          (case visit_node env sh (Control a ks) is_dom b of
             None \<Rightarrow> (None, sh)
           | Some b1 \<Rightarrow>
               (if children_raise a then (None, sh)
                else traverse_children env is_dom is_dialog
                       (if is_dom then ks else rev ks) b1 sh)))"
| "traverse_children env is_dom is_dialog [] b sh = (Some b, sh)"
| "traverse_children env is_dom is_dialog (child # rest) b sh =
     (case enter_child env is_dom is_dialog child b sh of
        (None, sh1) \<Rightarrow> (None, sh1)
      | (Some (b1, child_is_dom, child_is_dialog), sh1) \<Rightarrow>
          (case tree_traversal env child child_is_dom child_is_dialog b1 sh1 of
             (None, sh2) \<Rightarrow> (None, sh2)
           | (Some b2, sh2) \<Rightarrow> traverse_children env is_dom is_dialog rest b2 sh2))"
  by pat_completeness auto
termination
proof -
  have size_rev: "size_list size (rev ks) = size_list size ks" for ks :: "Control list"
    by (induction ks) simp_all
  show ?thesis
    by (relation "measure (\<lambda>x. case x of
                     Inl (env, node, is_dom, is_dialog, b, sh) \<Rightarrow> size node
                   | Inr (env, is_dom, is_dialog, children, b, sh) \<Rightarrow> size_list size children)")
       (auto simp: size_rev)
qed

subsection \<open>\<open>Tree.get_nodes\<close>\<close>

text \<open>\<open>Desktop.is_app_browser\<close> (desktop/service.py): the name of the process that owns
  the node is in \<open>BROWSER_NAMES\<close>.\<close>

definition is_app_browser :: "Config \<Rightarrow> Control \<Rightarrow> bool option" where
  "is_app_browser cfg node = do {
     process_name \<leftarrow> ProcessName (attrs node);
     Some (process_name \<in> set (BROWSER_NAMES cfg))
   }"

definition window_app_name :: "Control \<Rightarrow> string option" where
  "window_app_name node = do {
     name \<leftarrow> Name (attrs node);
     cn \<leftarrow> ClassName (attrs node);
     Some (if cn = ''Progman'' then ''Desktop''
           else if cn = ''Shell_TrayWnd'' \<or> cn = ''Shell_SecondaryTrayWnd'' then ''Taskbar''
           else if cn = ''Microsoft.UI.Content.PopupWindowSiteBridge'' then ''Context Menu''
           else strip name)
   }"

type_synonym NodeLists =
  "TreeElementNode list \<times> ScrollElementNode list \<times> TextElementNode list"

text \<open>The head of \<open>get_nodes\<close>: the browser flag (an argument of \<open>None\<close> asks
  the desktop, and an exception there means no browser), the box of the window and
  the name of the application. \<open>None\<close>: an accessor raised.\<close>

definition get_nodes_env :: "Config \<Rightarrow> BoundingBox \<Rightarrow> Control \<Rightarrow> bool option \<Rightarrow> Env option" where
  "get_nodes_env cfg screen_box node is_browser_arg =
     (let is_browser = (case is_browser_arg of
                          None \<Rightarrow> except_False (is_app_browser cfg node)
                        | Some given \<Rightarrow> given)
      in do {
        window_bounding_box \<leftarrow> BoundingRectangle (attrs node);
        app_name \<leftarrow> window_app_name node;
        Some \<lparr>e_screen_box = screen_box, e_is_browser = is_browser,
              e_app_name = app_name, e_window_bounding_box = window_bounding_box\<rparr>
      })"

text \<open>The \<open>return\<close> statements at the end of \<open>get_nodes\<close>.\<close>

definition get_nodes_result :: "bool \<Rightarrow> bool \<Rightarrow> Buffers \<Rightarrow> NodeLists" where
  "get_nodes_result use_dom is_browser b =
     (if use_dom
      then (if is_browser
            then (dom_interactive_nodes b, scrollable_nodes b, dom_informative_nodes b)
            else ([], [], []))
      else (interactive_nodes b @ dom_interactive_nodes b, scrollable_nodes b,
            dom_informative_nodes b))"

text \<open>The result of a job (\<open>None\<close> when it raised) and the fields of the object after it.\<close>

definition get_nodes ::
  "Config \<Rightarrow> BoundingBox \<Rightarrow> Control \<Rightarrow> bool option \<Rightarrow> bool \<Rightarrow> Shared
     \<Rightarrow> NodeLists option \<times> Shared" where
  "get_nodes cfg screen_box node is_browser_arg use_dom sh =
     (case get_nodes_env cfg screen_box node is_browser_arg of
        None \<Rightarrow> (None, sh)
      | Some env \<Rightarrow>
          (case tree_traversal env node False False empty_buffers sh of
             (None, sh1) \<Rightarrow> (None, sh1)
           | (Some b, sh1) \<Rightarrow> (Some (get_nodes_result use_dom (e_is_browser env) b), sh1)))"

section \<open>TreeStateEngine: \<open>Tree.get_appwise_nodes\<close>\<close>

text \<open>
  A window is a \<open>Control\<close> object of the provider; \<open>app\<close> is its identity (the dictionary
  key of \<open>retry_counts\<close>). A future is named by the order of its submission. The
  executor, the provider and the clock are outside the program: the model takes what
  they answer as a parameter and records every \<open>submit\<close> in a log of calls.
  A job runs in a worker thread; the model runs it when its future is yielded, so what it
  assigns to the fields of the object takes effect then, and a job that is never yielded
  leaves no trace.
\<close>

type_synonym app = nat
type_synonym future = nat

datatype call = Submit_collect_targets | Submit_ControlFromHandle | Submit_get_nodes app

text \<open>The six messages of the source; the numbers are the ones the message formats.\<close>

datatype warning =
    UIA_disabled real
  | Root_enumeration_timed_out real
  | Root_enumeration_failed
  | Active_window_lookup_failed
  | Tree_enumeration_timed_out real
  | Subtrees_failed

text \<open>
  One future yielded by \<open>as_completed\<close>: the tree its job walked, as the provider
  showed it to that run, and the clock as the handler of a failure reads it
  (\<open>deadline - time.monotonic()\<close> in the \<open>except\<close> branch).
\<close>

record completion =
  c_future :: future
  c_view :: Control
  c_now :: real

text \<open>
  One iteration of the \<open>while\<close> loop: the clock at its head and the futures
  \<open>as_completed\<close> yields, in this order, before its timeout. A completion of a future
  that is not waited for is not yielded. When futures of the iteration are left over
  after the last completion, \<open>as_completed\<close> raises its timeout.
\<close>

record round =
  r_now :: real
  r_completions :: "completion list"

record Join =
  future_to_app :: "(future \<times> app) list"
  retry_counts :: "app \<Rightarrow> nat"
  next_future :: future
  j_interactive_nodes :: "TreeElementNode list"
  j_scrollable_nodes :: "ScrollElementNode list"
  j_dom_informative_nodes :: "TextElementNode list"
  j_is_partial :: bool
  j_warnings :: "warning list"
  completed :: nat
  j_shared :: Shared
  j_calls :: "call list"

definition submit_get_nodes :: "app \<Rightarrow> Join \<Rightarrow> Join" where
  "submit_get_nodes a j =
     j\<lparr>future_to_app := future_to_app j @ [(next_future j, a)],
       next_future := Suc (next_future j),
       j_calls := j_calls j @ [Submit_get_nodes a]\<rparr>"

text \<open>The body of the \<open>for\<close> loop for one yielded future of window \<open>a\<close>.\<close>

definition handle_completion ::
  "Config \<Rightarrow> BoundingBox \<Rightarrow> bool \<Rightarrow> real \<Rightarrow> completion \<Rightarrow> app \<Rightarrow> Join \<Rightarrow> Join" where
  "handle_completion cfg screen_box use_dom deadline c a j =
     (let j1 = j\<lparr>future_to_app := filter (\<lambda>(f, _). f \<noteq> c_future c) (future_to_app j)\<rparr>
      in case get_nodes cfg screen_box (c_view c) None use_dom (j_shared j1) of
           (Some (element_nodes, scroll_nodes, informative_nodes), sh) \<Rightarrow>
             j1\<lparr>j_interactive_nodes := j_interactive_nodes j1 @ element_nodes,
                j_scrollable_nodes := j_scrollable_nodes j1 @ scroll_nodes,
                j_dom_informative_nodes := j_dom_informative_nodes j1 @ informative_nodes,
                completed := completed j1 + 1,
                j_shared := sh\<rparr>
         | (None, sh) \<Rightarrow>
             (let j2 = j1\<lparr>retry_counts := (retry_counts j1)(a := retry_counts j1 a + 1),
                          j_shared := sh\<rparr>
              in if retry_counts j2 a < THREAD_MAX_RETRIES \<and> deadline - c_now c > 0
                 then submit_get_nodes a j2
                 else j2\<lparr>j_is_partial := True,
                         j_warnings := j_warnings j2 @ [Subtrees_failed]\<rparr>))"

text \<open>The \<open>for\<close> loop over \<open>as_completed(list(future_to_app), timeout=remaining)\<close>:
  \<open>waiting\<close> are the futures of the list that have not been yielded yet.\<close>

fun as_completed_loop ::
  "Config \<Rightarrow> BoundingBox \<Rightarrow> bool \<Rightarrow> real \<Rightarrow> future list \<Rightarrow> completion list \<Rightarrow> Join
     \<Rightarrow> future list \<times> Join" where
  "as_completed_loop cfg screen_box use_dom deadline waiting [] j = (waiting, j)"
| "as_completed_loop cfg screen_box use_dom deadline waiting (c # cs) j =
     (case (if c_future c \<in> set waiting then map_of (future_to_app j) (c_future c) else None) of
        None \<Rightarrow> as_completed_loop cfg screen_box use_dom deadline waiting cs j
      | Some a \<Rightarrow>
          as_completed_loop cfg screen_box use_dom deadline (removeAll (c_future c) waiting) cs
            (handle_completion cfg screen_box use_dom deadline c a j))"

definition timed_out :: "real \<Rightarrow> Join \<Rightarrow> Join" where
  "timed_out timeout_s j =
     j\<lparr>j_is_partial := True, j_warnings := j_warnings j @ [Tree_enumeration_timed_out timeout_s]\<rparr>"

text \<open>The \<open>while future_to_app\<close> loop. A list of rounds that ends while futures are
  pending describes a run in which nothing else completes: the next reading of the clock
  finds the budget used up.\<close>

fun join_loop ::
  "Config \<Rightarrow> BoundingBox \<Rightarrow> bool \<Rightarrow> real \<Rightarrow> real \<Rightarrow> round list \<Rightarrow> Join \<Rightarrow> Join" where
  "join_loop cfg screen_box use_dom deadline timeout_s [] j =
     (if future_to_app j = [] then j else timed_out timeout_s j)"
| "join_loop cfg screen_box use_dom deadline timeout_s (r # rs) j =
     (if future_to_app j = [] then j
      else if deadline - r_now r \<le> 0 then timed_out timeout_s j
      else (case as_completed_loop cfg screen_box use_dom deadline
                   (map fst (future_to_app j)) (r_completions r) j of
              (waiting, j1) \<Rightarrow>
                if waiting \<noteq> [] then timed_out timeout_s j1
                else join_loop cfg screen_box use_dom deadline timeout_s rs j1))"

definition tree_timeout :: "Config \<Rightarrow> bool \<Rightarrow> real" where
  "tree_timeout cfg use_dom =
     (if use_dom then TREE_STATE_TIMEOUT_DOM_S cfg else TREE_STATE_TIMEOUT_S cfg)"

definition initial_join :: "Shared \<Rightarrow> call list \<Rightarrow> Join" where
  "initial_join sh calls =
     \<lparr>future_to_app = [], retry_counts = (\<lambda>_. 0), next_future = 0,
      j_interactive_nodes = [], j_scrollable_nodes = [], j_dom_informative_nodes = [],
      j_is_partial = False, j_warnings = [], completed = 0, j_shared = sh, j_calls = calls\<rparr>"

text \<open>\<open>start\<close> is the clock when the deadline is computed.\<close>

definition get_appwise_nodes ::
  "Config \<Rightarrow> BoundingBox \<Rightarrow> app list \<Rightarrow> bool \<Rightarrow> real \<Rightarrow> round list \<Rightarrow> Shared \<Rightarrow> call list
     \<Rightarrow> Join" where
  "get_appwise_nodes cfg screen_box apps use_dom start rounds sh calls =
     (let timeout_s = tree_timeout cfg use_dom;
          deadline = start + timeout_s
      in join_loop cfg screen_box use_dom deadline timeout_s rounds
           (fold submit_get_nodes apps (initial_join sh calls)))"

section \<open>TreeStateEngine: \<open>Tree.get_state\<close>\<close>

record Tree =
  screen_box :: BoundingBox
  shared :: Shared
  uia_disabled_until :: real

text \<open>\<open>Tree.__init__\<close> for a screen of the given size.\<close>

definition init_tree :: "int \<Rightarrow> int \<Rightarrow> Tree" where
  "init_tree w h =
     \<lparr>screen_box = screen_box_of w h,
      shared = \<lparr>dom_info = None, dom_bounding_box = None\<rparr>,
      uia_disabled_until = 0\<rparr>"

record TreeState =
  ts_dom_info :: "DOMInfo option"
  ts_interactive_nodes :: "TreeElementNode list"
  ts_scrollable_nodes :: "ScrollElementNode list"
  ts_dom_informative_nodes :: "TextElementNode list"
  is_partial :: bool
  warnings :: "warning list"

text \<open>The loop of \<open>collect_targets\<close> over the children of the root, each with its
  identity. \<open>None\<close>: the job raised. \<open>has_active_app\<close> is the truth value of
  \<open>active_app\<close>.\<close>

fun collect_targets ::
  "Config \<Rightarrow> int list \<Rightarrow> bool \<Rightarrow> (app \<times> Control) list \<Rightarrow> app list option" where
  "collect_targets cfg other_apps_handle has_active_app [] = Some []"
| "collect_targets cfg other_apps_handle has_active_app ((a, child) # rest) =
     (case NativeWindowHandle (attrs child) of
        None \<Rightarrow> collect_targets cfg other_apps_handle has_active_app rest
      | Some hwnd \<Rightarrow>
          if hwnd \<in> set other_apps_handle
          then collect_targets cfg other_apps_handle has_active_app rest
          else do {
            progman \<leftarrow> (if has_active_app
                        then do { cn \<leftarrow> ClassName (attrs child); Some (cn = ''Progman'') }
                        else Some False);
            excluded \<leftarrow> (if \<not> progman \<and> exclude_system_windows cfg
                         then do { cn \<leftarrow> ClassName (attrs child);
                                   Some (cn \<in> set (EXCLUDED_APPS cfg)) }
                         else Some False);
            targets \<leftarrow> collect_targets cfg other_apps_handle has_active_app rest;
            Some (if progman \<or> excluded then targets else a # targets)
          })"

text \<open>
  What the world answers during one call of \<open>get_state\<close>: the clock at entry; the
  outcome of \<open>fut.result(timeout=root_timeout_s)\<close> for the root enumeration (the children
  of the root, an exception of \<open>GetRootControl\<close> or \<open>GetChildren\<close>, or the timeout,
  with the clock as the handler reads it); the window \<open>ControlFromHandle\<close> resolves within
  its timeout, if any; the clock at the start of \<open>get_appwise_nodes\<close>; the rounds of
  the join.
\<close>

datatype root_result =
    Root_children "(app \<times> Control) list"
  | Root_raised
  | Root_timeout real

record World =
  w_now :: real
  w_root :: root_result
  w_fallback :: "app option"
  w_join_start :: real
  w_rounds :: "round list"

text \<open>The root enumeration of \<open>get_state\<close>: the targets, \<open>root_partial\<close>,
  \<open>root_warnings\<close> and the object after the \<open>try\<close> statement.\<close>

definition root_enumeration ::
  "Config \<Rightarrow> Tree \<Rightarrow> int option \<Rightarrow> int list \<Rightarrow> real \<Rightarrow> root_result
     \<Rightarrow> app list \<times> bool \<times> warning list \<times> Tree" where
  "root_enumeration cfg tree active_app other_apps root_timeout_s result =
     (case result of
        Root_children children \<Rightarrow>
          (case collect_targets cfg other_apps (active_app \<noteq> None) children of
             Some targets \<Rightarrow> (targets, False, [], tree)
           | None \<Rightarrow> ([], True, [Root_enumeration_failed], tree))
      | Root_raised \<Rightarrow> ([], True, [Root_enumeration_failed], tree)
      | Root_timeout now \<Rightarrow>
          ([], True, [Root_enumeration_timed_out root_timeout_s],
           tree\<lparr>uia_disabled_until :=
                  max (uia_disabled_until tree) (now + UIA_TIMEOUT_COOLDOWN_S cfg)\<rparr>))"

text \<open>\<open>active_app\<close> is the handle of the active window, if there is one;
  \<open>other_apps\<close> are the handles of the other windows.\<close>

definition get_state ::
  "Config \<Rightarrow> Tree \<Rightarrow> int option \<Rightarrow> int list \<Rightarrow> bool \<Rightarrow> World
     \<Rightarrow> TreeState \<times> Tree \<times> call list" where
  "get_state cfg tree active_app other_apps use_dom w =
     (let timeout_s = tree_timeout cfg use_dom;
          root_timeout_s = min (ROOT_ENUM_TIMEOUT_S cfg) timeout_s;
          now = w_now w
      in if now < uia_disabled_until tree
         then (let remaining = uia_disabled_until tree - now
               in (\<lparr>ts_dom_info = None, ts_interactive_nodes = [], ts_scrollable_nodes = [],
                    ts_dom_informative_nodes = [], is_partial = True,
                    warnings = [UIA_disabled remaining]\<rparr>, tree, []))
         else
           (case root_enumeration cfg tree active_app other_apps root_timeout_s (w_root w) of
              (apps, root_partial, root_warnings, tree1) \<Rightarrow>
                (let calls1 = [Submit_collect_targets];
                     fallback = (apps = [] \<and> (case active_app of
                                                 None \<Rightarrow> False | Some handle \<Rightarrow> handle \<noteq> 0));
                     apps2 = (if fallback
                              then (case w_fallback w of Some a \<Rightarrow> [a] | None \<Rightarrow> apps)
                              else apps);
                     failed = (fallback \<and> w_fallback w = None);
                     root_partial2 = (root_partial \<or> failed);
                     root_warnings2 =
                       (if failed then root_warnings @ [Active_window_lookup_failed]
                        else root_warnings);
                     calls2 = (if fallback then calls1 @ [Submit_ControlFromHandle] else calls1);
                     j = get_appwise_nodes cfg (screen_box tree1) apps2 use_dom (w_join_start w)
                           (w_rounds w) (shared tree1) calls2;
                     tree2 = tree1\<lparr>shared := j_shared j\<rparr>
                 in (\<lparr>ts_dom_info = dom_info (shared tree2),
                      ts_interactive_nodes = j_interactive_nodes j,
                      ts_scrollable_nodes = j_scrollable_nodes j,
                      ts_dom_informative_nodes = j_dom_informative_nodes j,
                      is_partial = (j_is_partial j \<or> root_partial2),
                      warnings = j_warnings j @ root_warnings2\<rparr>, tree2, j_calls j))))"

section \<open>Vocabulary of the properties\<close>

definition within_screen :: "BoundingBox \<Rightarrow> BoundingBox \<Rightarrow> bool" where
  "within_screen scr b =
     (bb_left scr \<le> bb_left b \<and> bb_right b \<le> bb_right scr \<and>
      bb_top scr \<le> bb_top b \<and> bb_bottom b \<le> bb_bottom scr)"

definition box_dimensions :: "BoundingBox \<Rightarrow> bool" where
  "box_dimensions b =
     (bb_width b = bb_right b - bb_left b \<and> bb_height b = bb_bottom b - bb_top b)"

text \<open>A box as the spec wants it: edges in order, width and height their differences,
  and either the all-zero box or a box of positive area inside the screen.\<close>

definition clipped_box :: "BoundingBox \<Rightarrow> BoundingBox \<Rightarrow> bool" where
  "clipped_box scr b =
     (bb_left b \<le> bb_right b \<and> bb_top b \<le> bb_bottom b \<and> box_dimensions b \<and>
      (b = zero_box \<or> (0 < bb_width b \<and> 0 < bb_height b \<and> within_screen scr b)))"

definition buffers_ok :: "BoundingBox \<Rightarrow> Buffers \<Rightarrow> bool" where
  "buffers_ok scr b =
     ((\<forall>e \<in> set (interactive_nodes b). clipped_box scr (ten_bounding_box e)) \<and>
      (\<forall>e \<in> set (dom_interactive_nodes b). clipped_box scr (ten_bounding_box e)) \<and>
      (\<forall>s \<in> set (scrollable_nodes b). box_dimensions (sen_bounding_box s)))"

definition join_boxes_ok :: "BoundingBox \<Rightarrow> Join \<Rightarrow> bool" where
  "join_boxes_ok scr j =
     ((\<forall>e \<in> set (j_interactive_nodes j). clipped_box scr (ten_bounding_box e)) \<and>
      (\<forall>s \<in> set (j_scrollable_nodes j). box_dimensions (sen_bounding_box s)))"

definition partial_iff_warned :: "Join \<Rightarrow> bool" where
  "partial_iff_warned j = (j_is_partial j \<longleftrightarrow> j_warnings j \<noteq> [])"

text \<open>The retry counter of a window bounds what is left of its two resubmissions: the
  submissions of the window logged so far, plus what the counter still allows, never
  exceed its submissions at the start plus two.\<close>

definition retry_budget :: "app list \<Rightarrow> Join \<Rightarrow> bool" where
  "retry_budget apps j =
     (\<forall>a. count_list (j_calls j) (Submit_get_nodes a) + (2 - retry_counts j a)
            \<le> count_list apps a + 2)"

text \<open>The second rule of \<open>is_element_interactive\<close>: outside a browser, an
  \<open>ImageControl\<close> that is keyboard-focusable is interactive, and nothing else is read.\<close>

definition image_rule :: "bool \<Rightarrow> Control \<Rightarrow> bool" where
  "image_rule is_browser node =
     (\<not> is_browser \<and> ControlTypeName (attrs node) = Some ''ImageControl'' \<and>
      is_keyboard_focusable node)"




text \<open>The snapshot of a call that the breaker short-circuits.\<close>

definition short_circuit :: "real \<Rightarrow> TreeState" where
  "short_circuit remaining =
     \<lparr>ts_dom_info = None, ts_interactive_nodes = [], ts_scrollable_nodes = [],
      ts_dom_informative_nodes = [], is_partial = True, warnings = [UIA_disabled remaining]\<rparr>"

section \<open>Example inputs\<close>

text \<open>An enabled button \<open>OK\<close> on the screen, and variations of it.\<close>

definition example_attrs :: Attrs where
  "example_attrs =
     \<lparr>py_class = OtherControl, Name = Some ''OK'', ClassName = Some ''Button'',
      ControlTypeName = Some ''ButtonControl'', LocalizedControlType = Some ''button'',
      AutomationId = Some [], AcceleratorKey = Some [], ProcessName = Some ''notepad.exe'',
      NativeWindowHandle = Some 1,
      IsOffscreen = Some False, IsControlElement = Some True, IsEnabled = Some True,
      IsKeyboardFocusable = Some True, HasKeyboardFocus = Some False, IsModal = None,
      BoundingRectangle =
        Some \<lparr>rect_left = 10, rect_top = 10, rect_right = 110, rect_bottom = 60\<rparr>,
      GetScrollPattern = Some None,
      GetLegacyIAccessiblePattern =
        Some \<lparr>DefaultAction = Some ''Press'', Value = Some (Some [])\<rparr>,
      random_point = Some (50, 25), children_raise = False\<rparr>"

definition button :: Control where
  "button = Control example_attrs []"

definition ok_element :: "string \<Rightarrow> TreeElementNode" where
  "ok_element app =
     \<lparr>ten_name = ''OK'', ten_control_type = ''Button'', ten_value = Some [], ten_shortcut = [],
      ten_bounding_box = \<lparr>bb_left = 10, bb_top = 10, bb_right = 110, bb_bottom = 60,
                          bb_width = 100, bb_height = 50\<rparr>,
      ten_center = \<lparr>center_x = 60, center_y = 35\<rparr>, ten_app_name = app,
      ten_is_focused = False\<rparr>"

definition offscreen_pane :: Control where
  "offscreen_pane =
     Control (example_attrs\<lparr>ControlTypeName := Some ''PaneControl'', ClassName := Some ''Pane'',
                            Name := Some [], IsOffscreen := Some True\<rparr>) [button]"

definition notepad_window :: Control where
  "notepad_window =
     Control (example_attrs\<lparr>py_class := WindowControl, ControlTypeName := Some ''WindowControl'',
                            Name := Some ''Notepad'', ClassName := Some ''Notepad''\<rparr>)
       [offscreen_pane]"

definition example_env :: Env where
  "example_env =
     \<lparr>e_screen_box = screen_box_of 1920 1080, e_is_browser = False, e_app_name = ''Notepad'',
      e_window_bounding_box =
        \<lparr>rect_left = 0, rect_top = 0, rect_right = 800, rect_bottom = 600\<rparr>\<rparr>"

definition no_shared :: Shared where
  "no_shared = \<lparr>dom_info = None, dom_bounding_box = None\<rparr>"

definition example_scroll_pattern :: ScrollPattern where
  "example_scroll_pattern =
     \<lparr>HorizontallyScrollable = Some False, HorizontalScrollPercent = Some (- 1),
      VerticallyScrollable = Some True, VerticalScrollPercent = Some 25\<rparr>"

text \<open>A scrollable pane that the provider does not report off-screen and whose rectangle
  starts left of the screen.\<close>

definition scroll_pane :: Control where
  "scroll_pane =
     Control (example_attrs\<lparr>ControlTypeName := Some ''PaneControl'', ClassName := Some ''Pane'',
                            Name := Some ''List'', LocalizedControlType := Some ''pane'',
                            BoundingRectangle :=
                              Some \<lparr>rect_left = - 10, rect_top = 0,
                                    rect_right = 100, rect_bottom = 50\<rparr>,
                            GetScrollPattern := Some (Some example_scroll_pattern)\<rparr>) []"

text \<open>A call in which the root enumeration returns one window and its job completes.\<close>

definition one_window_world :: "Control \<Rightarrow> World" where
  "one_window_world view =
     \<lparr>w_now = 100, w_root = Root_children [(0, view)], w_fallback = None, w_join_start = 101,
      w_rounds = [\<lparr>r_now = 101,
                   r_completions = [\<lparr>c_future = 0, c_view = view, c_now = 102\<rparr>]\<rparr>]\<rparr>"

text \<open>A call in which the root enumeration times out; the handler reads the clock at
  102.\<close>

definition timeout_world :: World where
  "timeout_world =
     \<lparr>w_now = 100, w_root = Root_timeout 102, w_fallback = None, w_join_start = 102,
      w_rounds = []\<rparr>"

text \<open>A window whose rectangle cannot be read: every job on it raises. In
  \<open>failing_world\<close> its job is run three times, well within the budget of 6 seconds.\<close>

definition broken_window :: Control where
  "broken_window = Control (example_attrs\<lparr>BoundingRectangle := None\<rparr>) []"

definition failing_rounds :: "round list" where
  "failing_rounds =
     [\<lparr>r_now = 101, r_completions = [\<lparr>c_future = 0, c_view = broken_window, c_now = 102\<rparr>]\<rparr>,
      \<lparr>r_now = 102, r_completions = [\<lparr>c_future = 1, c_view = broken_window, c_now = 103\<rparr>]\<rparr>,
      \<lparr>r_now = 103, r_completions = [\<lparr>c_future = 2, c_view = broken_window, c_now = 104\<rparr>]\<rparr>]"

definition failing_world :: World where
  "failing_world =
     \<lparr>w_now = 100, w_root = Root_children [(0, broken_window)], w_fallback = None,
      w_join_start = 101, w_rounds = failing_rounds\<rparr>"








text \<open>A button whose enabled flag cannot be read, and a pane whose scroll pattern cannot
  be read.\<close>

definition unreadable_button :: Control where
  "unreadable_button = Control (example_attrs\<lparr>IsEnabled := None\<rparr>) []"

definition unreadable_pane :: Control where
  "unreadable_pane = Control (attrs scroll_pane\<lparr>GetScrollPattern := None\<rparr>) []"

text \<open>A modal dialog on the screen; the buffers after one interactive element; and, in a
  browser, a modal window on the screen that is also the root content area.\<close>

definition modal_dialog :: Control where
  "modal_dialog =
     Control (example_attrs\<lparr>py_class := WindowControl, ControlTypeName := Some ''WindowControl'',
                            Name := Some ''Save'', IsModal := Some True\<rparr>) []"

definition one_element_buffers :: Buffers where
  "one_element_buffers = empty_buffers\<lparr>interactive_nodes := [ok_element ''Notepad'']\<rparr>"

definition browser_env :: Env where
  "browser_env = example_env\<lparr>e_is_browser := True\<rparr>"

definition modal_root :: Control where
  "modal_root =
     Control (attrs modal_dialog\<lparr>AutomationId := Some ''RootWebArea'',
                GetScrollPattern :=
                  Some (Some (example_scroll_pattern\<lparr>VerticallyScrollable := Some False\<rparr>))\<rparr>) []"

section \<open>Helper lemmas\<close>

lemma iou_clipped: "clipped_box scr (iou_bounding_box scr w e)"
  by (simp add: iou_bounding_box_def clipped_box_def box_dimensions_def within_screen_def
      zero_box_def Let_def)

lemma tree_element_clipped:
  "tree_element env n r = Some t \<Longrightarrow> clipped_box (e_screen_box env) (ten_bounding_box t)"
  by (auto simp: tree_element_def iou_clipped Let_def split: Option.bind_splits)

lemma pop_subset: "pop xs = Some ys \<Longrightarrow> set ys \<subseteq> set xs"
  by (auto simp: pop_def split: if_splits dest: in_set_butlastD)

lemma group_element_clipped:
  "group_element env sh n c = Some t \<Longrightarrow> clipped_box (e_screen_box env) (ten_bounding_box t)"
  by (auto simp: group_element_def iou_clipped Let_def split: Option.bind_splits)

lemma link_element_clipped:
  "link_element env sh h = Some t \<Longrightarrow> clipped_box (e_screen_box env) (ten_bounding_box t)"
  by (auto simp: link_element_def iou_clipped Let_def split: Option.bind_splits)

lemma group_correction_clipped:
  assumes "group_correction env sh n ds = Some ds'"
    and "\<forall>e \<in> set ds. clipped_box (e_screen_box env) (ten_bounding_box e)"
  shows "\<forall>e \<in> set ds'. clipped_box (e_screen_box env) (ten_bounding_box e)"
  using assms
  by (auto simp: group_correction_def split: Option.bind_splits if_splits option.splits
      dest: group_element_clipped)

lemma link_correction_clipped:
  assumes "link_correction env sh n ds = Some ds'"
    and "\<forall>e \<in> set ds. clipped_box (e_screen_box env) (ten_bounding_box e)"
  shows "\<forall>e \<in> set ds'. clipped_box (e_screen_box env) (ten_bounding_box e)"
  using assms
  by (auto simp: link_correction_def split: Option.bind_splits dest: link_element_clipped)

lemma pop_clipped:
  assumes "pop ds = Some ds'"
    and "\<forall>e \<in> set ds. clipped_box scr (ten_bounding_box e)"
  shows "\<forall>e \<in> set ds'. clipped_box scr (ten_bounding_box e)"
  using assms pop_subset by blast

lemma dom_correction_cases:
  assumes "dom_correction env sh n ds = Some ds'"
  shows "ds' = ds \<or> pop ds = Some ds' \<or>
         (\<exists>p. pop ds = Some p \<and>
              (group_correction env sh n p = Some ds' \<or> link_correction env sh n p = Some ds'))"
  using assms unfolding dom_correction_def
  by (simp split: Option.bind_splits if_splits)

lemma dom_correction_clipped:
  assumes "dom_correction env sh n ds = Some ds'"
    and "\<forall>e \<in> set ds. clipped_box (e_screen_box env) (ten_bounding_box e)"
  shows "\<forall>e \<in> set ds'. clipped_box (e_screen_box env) (ten_bounding_box e)"
proof -
  from dom_correction_cases [OF assms(1)]
  consider "ds' = ds" | "pop ds = Some ds'"
    | p where "pop ds = Some p" "group_correction env sh n p = Some ds'"
    | p where "pop ds = Some p" "link_correction env sh n p = Some ds'"
    by blast
  then show ?thesis
  proof cases
    case 1
    with assms(2) show ?thesis by simp
  next
    case 2
    from pop_clipped [OF this assms(2)] show ?thesis .
  next
    case 3
    from group_correction_clipped [OF 3(2) pop_clipped [OF 3(1) assms(2)]] show ?thesis .
  next
    case 4
    from link_correction_clipped [OF 4(2) pop_clipped [OF 4(1) assms(2)]] show ?thesis .
  qed
qed

lemma scroll_element_dimensions:
  "scroll_element env n = Some s \<Longrightarrow> box_dimensions (sen_bounding_box s)"
  by (auto simp: scroll_element_def box_of_rect_def box_dimensions_def rect_width_def
      rect_height_def split: Option.bind_splits)


lemma append_scrollable_ok:
  assumes "append_scrollable env n b = Some b'" and "buffers_ok scr b"
  shows "buffers_ok scr b'"
proof (cases "is_element_scrollable n")
  case False
  with assms show ?thesis by (simp add: append_scrollable_def)
next
  case True
  with assms(1) obtain s where s: "scroll_element env n = Some s"
    and b': "b' = b\<lparr>scrollable_nodes := scrollable_nodes b @ [s]\<rparr>"
    by (auto simp: append_scrollable_def bind_eq_Some_conv)
  from scroll_element_dimensions [OF s] assms(2) show ?thesis
    by (simp add: b' buffers_ok_def)
qed

lemma append_classified_cases:
  assumes "append_classified env sh n d b = Some b'"
  shows "b' = b
       \<or> (\<exists>x. b' = b\<lparr>dom_informative_nodes := x\<rparr>)
       \<or> (\<exists>t. tree_element env n (e_window_bounding_box env) = Some t
              \<and> b' = b\<lparr>interactive_nodes := interactive_nodes b @ [t]\<rparr>)
       \<or> (\<exists>r t c. tree_element env n r = Some t
              \<and> dom_correction env sh n (dom_interactive_nodes b @ [t]) = Some c
              \<and> b' = b\<lparr>dom_interactive_nodes := c\<rparr>)"
  using assms unfolding append_classified_def
  by (simp add: bind_eq_Some_conv split: if_splits) blast+

lemma append_classified_ok:
  assumes "append_classified env sh n d b = Some b'" and "buffers_ok (e_screen_box env) b"
  shows "buffers_ok (e_screen_box env) b'"
proof -
  from append_classified_cases [OF assms(1)]
  consider "b' = b" | x where "b' = b\<lparr>dom_informative_nodes := x\<rparr>"
    | t where "tree_element env n (e_window_bounding_box env) = Some t"
        "b' = b\<lparr>interactive_nodes := interactive_nodes b @ [t]\<rparr>"
    | r t c where "tree_element env n r = Some t"
        "dom_correction env sh n (dom_interactive_nodes b @ [t]) = Some c"
        "b' = b\<lparr>dom_interactive_nodes := c\<rparr>"
    by blast
  then show ?thesis
  proof cases
    case 1
    with assms(2) show ?thesis by simp
  next
    case 2
    with assms(2) show ?thesis by (simp add: buffers_ok_def)
  next
    case 3
    from tree_element_clipped [OF 3(1)] assms(2) show ?thesis
      by (simp add: 3(2) buffers_ok_def)
  next
    case 4
    have "\<forall>e \<in> set (dom_interactive_nodes b @ [t]). clipped_box (e_screen_box env) (ten_bounding_box e)"
      using tree_element_clipped [OF 4(1)] assms(2) by (simp add: buffers_ok_def)
    from dom_correction_clipped [OF 4(2) this] assms(2) show ?thesis
      by (simp add: 4(3) buffers_ok_def)
  qed
qed

lemma visit_node_ok:
  assumes "visit_node env sh n d b = Some b'" and "buffers_ok (e_screen_box env) b"
  shows "buffers_ok (e_screen_box env) b'"
proof -
  from assms(1) obtain b1 where "append_scrollable env n b = Some b1"
    and "append_classified env sh n d b1 = Some b'"
    by (auto simp: visit_node_def bind_eq_Some_conv)
  with assms(2) show ?thesis
    using append_scrollable_ok append_classified_ok by blast
qed

lemma dialog_clear_ok:
  assumes "dialog_clear sh d c b = Some b'" and "buffers_ok scr b"
  shows "buffers_ok scr b'"
proof -
  from assms(1) have "b' = b \<or> b' = b\<lparr>dom_interactive_nodes := []\<rparr> \<or> b' = b\<lparr>interactive_nodes := []\<rparr>"
    unfolding dialog_clear_def by (simp add: bind_eq_Some_conv split: if_splits) blast+
  with assms(2) show ?thesis by (auto simp: buffers_ok_def)
qed

lemma enter_child_ok:
  assumes "enter_child env d g c b sh = (Some (b', d', g'), sh')" and "buffers_ok scr b"
  shows "buffers_ok scr b'"
proof -
  from assms(1) have "b' = b \<or> dialog_clear sh d c b = Some b'"
    unfolding enter_child_def
    by (simp add: Let_def split: option.splits bool.splits if_splits)
  with assms(2) dialog_clear_ok show ?thesis by blast
qed

lemma traversal_ok:
  "tree_traversal env n d g b sh = (Some b', sh') \<Longrightarrow> buffers_ok (e_screen_box env) b
     \<Longrightarrow> buffers_ok (e_screen_box env) b'"
  "traverse_children env d g cs b sh = (Some b', sh') \<Longrightarrow> buffers_ok (e_screen_box env) b
     \<Longrightarrow> buffers_ok (e_screen_box env) b'"
proof (induction env n d g b sh and env d g cs b sh arbitrary: b' sh' and b' sh'
    rule: tree_traversal_traverse_children.induct)
  case (1 env a ks is_dom is_dialog b sh)
  show ?case
  proof (cases "should_skip (Control a ks)")
    case None
    with "1.prems" show ?thesis by simp
  next
    case (Some skip)
    show ?thesis
    proof (cases skip)
      case True
      with Some "1.prems" show ?thesis by simp
    next
      case False
      with Some "1.prems" obtain b1 where v: "visit_node env sh (Control a ks) is_dom b = Some b1"
        and nr: "\<not> children_raise a"
        and t: "traverse_children env is_dom is_dialog (if is_dom then ks else rev ks) b1 sh = (Some b', sh')"
        by (auto split: option.splits if_splits)
      from visit_node_ok [OF v "1.prems"(2)] have "buffers_ok (e_screen_box env) b1" .
      moreover from False have "skip = False" by simp
      ultimately show ?thesis using "1.IH" [OF Some _ v nr t] by blast
    qed
  qed
next
  case (2 env is_dom is_dialog b sh)
  then show ?case by simp
next
  case (3 env is_dom is_dialog child rest b sh)
  from "3.prems"(1) obtain b1 cd cg sh1 b2 sh2 where
    e: "enter_child env is_dom is_dialog child b sh = (Some (b1, cd, cg), sh1)"
    and t: "tree_traversal env child cd cg b1 sh1 = (Some b2, sh2)"
    and r: "traverse_children env is_dom is_dialog rest b2 sh2 = (Some b', sh')"
    by (auto split: prod.splits option.splits)
  from enter_child_ok [OF e "3.prems"(2)] have b1: "buffers_ok (e_screen_box env) b1" .
  have b2: "buffers_ok (e_screen_box env) b2"
    using "3.IH"(1) [OF e [symmetric] _ _ _ t b1] by simp
  show ?case
    using "3.IH"(2) [OF e [symmetric] _ _ _ t [symmetric] _ r b2] by simp
qed

lemma get_nodes_env_screen:
  "get_nodes_env cfg scr n ib = Some env \<Longrightarrow> e_screen_box env = scr"
  by (auto simp: get_nodes_env_def Let_def bind_eq_Some_conv)

lemma get_nodes_ok:
  assumes "get_nodes cfg scr n ib ud sh = (Some (els, scs, infs), sh')"
  shows "(\<forall>e \<in> set els. clipped_box scr (ten_bounding_box e)) \<and>
         (\<forall>s \<in> set scs. box_dimensions (sen_bounding_box s))"
proof -
  from assms obtain env b where env: "get_nodes_env cfg scr n ib = Some env"
    and t: "tree_traversal env n False False empty_buffers sh = (Some b, sh')"
    and r: "(els, scs, infs) = get_nodes_result ud (e_is_browser env) b"
    unfolding get_nodes_def by (auto split: option.splits prod.splits)
  have "buffers_ok (e_screen_box env) empty_buffers"
    by (simp add: buffers_ok_def empty_buffers_def)
  from traversal_ok(1) [OF t this] have "buffers_ok scr b"
    by (simp add: get_nodes_env_screen [OF env])
  with r show ?thesis by (auto simp: buffers_ok_def get_nodes_result_def split: if_splits)
qed

lemma as_completed_loop_invariant:
  assumes "\<And>c a j. P j \<Longrightarrow> P (handle_completion cfg scr ud dl c a j)" and "P j"
  shows "P (snd (as_completed_loop cfg scr ud dl waiting cs j))"
  using assms(2)
proof (induction cs arbitrary: waiting j)
  case Nil
  then show ?case by simp
next
  case (Cons c cs)
  then show ?case by (auto simp: assms(1) split: option.splits)
qed

lemma join_loop_invariant:
  assumes "\<And>c a j. P j \<Longrightarrow> P (handle_completion cfg scr ud dl c a j)"
    and "\<And>j. P j \<Longrightarrow> P (timed_out ts j)" and "P j"
  shows "P (join_loop cfg scr ud dl ts rounds j)"
  using assms(3)
proof (induction rounds arbitrary: j)
  case Nil
  then show ?case by (simp add: assms(2))
next
  case (Cons r rs)
  have "P (snd (as_completed_loop cfg scr ud dl (map fst (future_to_app j)) (r_completions r) j))"
    using as_completed_loop_invariant [of P, OF assms(1) Cons.prems] .
  with Cons show ?case by (auto simp: assms(2) split: prod.splits)
qed

lemma fold_submit_invariant:
  assumes "\<And>a j. P j \<Longrightarrow> P (submit_get_nodes a j)" and "P j"
  shows "P (fold submit_get_nodes apps j)"
  using assms(2) by (induction apps arbitrary: j) (simp_all add: assms(1))

lemma get_appwise_nodes_invariant:
  assumes "\<And>c a j dl. P j \<Longrightarrow> P (handle_completion cfg scr ud dl c a j)"
    and "\<And>j ts. P j \<Longrightarrow> P (timed_out ts j)"
    and "\<And>a j. P j \<Longrightarrow> P (submit_get_nodes a j)"
    and "P (initial_join sh calls)"
  shows "P (get_appwise_nodes cfg scr apps ud start rounds sh calls)"
  unfolding get_appwise_nodes_def Let_def
  by (rule join_loop_invariant) (simp_all add: assms fold_submit_invariant)

lemma handle_completion_boxes:
  assumes "join_boxes_ok scr j"
  shows "join_boxes_ok scr (handle_completion cfg scr ud dl c a j)"
proof (cases "get_nodes cfg scr (c_view c) None ud (j_shared j)")
  case (Pair r sh)
  show ?thesis
  proof (cases r)
    case None
    with Pair assms show ?thesis
      by (simp add: handle_completion_def join_boxes_ok_def submit_get_nodes_def Let_def)
  next
    case (Some lists)
    obtain els scs infs where l: "lists = (els, scs, infs)" by (cases lists)
    from get_nodes_ok [OF Pair [unfolded Some l]] assms Pair Some l show ?thesis
      by (auto simp: handle_completion_def join_boxes_ok_def Let_def)
  qed
qed

lemma handle_completion_warned:
  assumes "partial_iff_warned j"
  shows "partial_iff_warned (handle_completion cfg scr ud dl c a j)"
  using assms
  by (simp add: handle_completion_def partial_iff_warned_def submit_get_nodes_def Let_def
      split: prod.splits option.splits)

lemma root_enumeration_screen:
  "root_enumeration cfg tree aa oa rt res = (apps, rp, rw, tree1) \<Longrightarrow>
     screen_box tree1 = screen_box tree \<and> shared tree1 = shared tree"
  by (auto simp: root_enumeration_def split: root_result.splits option.splits)

lemma root_enumeration_warned:
  "root_enumeration cfg tree aa oa rt res = (apps, rp, rw, tree1) \<Longrightarrow> rp \<longleftrightarrow> rw \<noteq> []"
  by (auto simp: root_enumeration_def split: root_result.splits option.splits)

subsection \<open>The breaker\<close>

lemma get_state_breaker_open:
  "w_now w < uia_disabled_until tree \<Longrightarrow>
     get_state cfg tree aa oa ud w = (short_circuit (uia_disabled_until tree - w_now w), tree, [])"
  by (simp add: get_state_def short_circuit_def Let_def)

lemma handle_completion_calls:
  "\<exists>more. j_calls (handle_completion cfg scr ud dl c a j) = j_calls j @ more"
  by (simp add: handle_completion_def submit_get_nodes_def Let_def split: prod.splits option.splits)

lemma get_appwise_nodes_calls:
  "\<exists>more. j_calls (get_appwise_nodes cfg scr apps ud start rounds sh calls) = calls @ more"
proof (rule get_appwise_nodes_invariant)
  fix c a dl and j :: Join
  assume "\<exists>more. j_calls j = calls @ more"
  then obtain m where "j_calls j = calls @ m" ..
  moreover obtain m' where "j_calls (handle_completion cfg scr ud dl c a j) = j_calls j @ m'"
    using handle_completion_calls by blast
  ultimately show "\<exists>more. j_calls (handle_completion cfg scr ud dl c a j) = calls @ more" by simp
qed (auto simp: timed_out_def submit_get_nodes_def initial_join_def)

lemma root_enumeration_until:
  "root_enumeration cfg tree aa oa rt res = (apps, rp, rw, tree1) \<Longrightarrow>
     uia_disabled_until tree1 =
       (case res of
          Root_timeout t \<Rightarrow> max (uia_disabled_until tree) (t + UIA_TIMEOUT_COOLDOWN_S cfg)
        | _ \<Rightarrow> uia_disabled_until tree)"
  by (auto simp: root_enumeration_def split: root_result.splits option.splits)

lemma get_state_breaker_closed:
  assumes "\<not> w_now w < uia_disabled_until tree"
  shows "\<exists>rest. snd (snd (get_state cfg tree aa oa ud w)) = Submit_collect_targets # rest"
    and "uia_disabled_until (fst (snd (get_state cfg tree aa oa ud w))) =
       (case w_root w of
          Root_timeout t \<Rightarrow> max (uia_disabled_until tree) (t + UIA_TIMEOUT_COOLDOWN_S cfg)
        | _ \<Rightarrow> uia_disabled_until tree)"
proof -
  obtain apps rp rw tree1 where
    r: "root_enumeration cfg tree aa oa
          (min (ROOT_ENUM_TIMEOUT_S cfg) (tree_timeout cfg ud)) (w_root w)
         = (apps, rp, rw, tree1)"
    using prod_cases4 by blast
  have c: "\<exists>more. j_calls (get_appwise_nodes cfg scr apps' ud st rs sh (Submit_collect_targets # cs))
              = Submit_collect_targets # more" for scr apps' st rs sh cs
    using get_appwise_nodes_calls [of cfg scr apps' ud st rs sh "Submit_collect_targets # cs"]
    by auto
  show "\<exists>rest. snd (snd (get_state cfg tree aa oa ud w)) = Submit_collect_targets # rest"
    using assms r c by (simp add: get_state_def Let_def)
  show "uia_disabled_until (fst (snd (get_state cfg tree aa oa ud w))) =
       (case w_root w of
          Root_timeout t \<Rightarrow> max (uia_disabled_until tree) (t + UIA_TIMEOUT_COOLDOWN_S cfg)
        | _ \<Rightarrow> uia_disabled_until tree)"
    using assms r root_enumeration_until [OF r] by (simp add: get_state_def Let_def)
qed

subsection \<open>The retry counter\<close>

lemma handle_completion_budget:
  assumes "retry_budget apps j"
  shows "retry_budget apps (handle_completion cfg scr ud dl c a j)"
proof (cases "get_nodes cfg scr (c_view c) None ud (j_shared j)")
  case (Pair r sh)
  show ?thesis
  proof (cases r)
    case (Some lists)
    with Pair assms show ?thesis
      by (simp add: handle_completion_def retry_budget_def Let_def split: prod.splits)
  next
    case None
    show ?thesis
      unfolding retry_budget_def
    proof
      fix x
      from assms have "count_list (j_calls j) (Submit_get_nodes x) + (2 - retry_counts j x)
            \<le> count_list apps x + 2"
        by (simp add: retry_budget_def)
      with Pair None
      show "count_list (j_calls (handle_completion cfg scr ud dl c a j)) (Submit_get_nodes x)
             + (2 - retry_counts (handle_completion cfg scr ud dl c a j) x)
            \<le> count_list apps x + 2"
        by (auto simp: handle_completion_def submit_get_nodes_def Let_def THREAD_MAX_RETRIES_def)
    qed
  qed
qed

lemma fold_submit_calls:
  "j_calls (fold submit_get_nodes apps j) = j_calls j @ map Submit_get_nodes apps"
  "retry_counts (fold submit_get_nodes apps j) = retry_counts j"
  by (induction apps arbitrary: j) (simp_all add: submit_get_nodes_def)

lemma count_list_map_inj:
  "inj f \<Longrightarrow> count_list (map f xs) (f a) = count_list xs a"
  by (induction xs) (auto dest: injD)

lemma submissions_bounded:
  "count_list (j_calls (get_appwise_nodes cfg scr apps ud start rounds sh [])) (Submit_get_nodes a)
     \<le> count_list apps a + 2"
proof -
  have "inj Submit_get_nodes" by (simp add: inj_def)
  then have "retry_budget apps (fold submit_get_nodes apps (initial_join sh []))"
    by (simp add: retry_budget_def fold_submit_calls initial_join_def count_list_map_inj)
  then have "retry_budget apps (get_appwise_nodes cfg scr apps ud start rounds sh [])"
    unfolding get_appwise_nodes_def Let_def
    by (rule join_loop_invariant [rotated 2])
       (simp_all add: handle_completion_budget, simp add: retry_budget_def timed_out_def)
  then show ?thesis
    by (simp add: retry_budget_def) (metis add_leE)
qed

subsection \<open>The captured fields\<close>










subsection \<open>The classifier\<close>

lemma enabled_closed: "IsEnabled (attrs n) = None \<Longrightarrow> \<not> is_element_enabled n"
  by (simp add: is_element_enabled_def except_False_def)

lemma focusable_closed:
  "ControlTypeName (attrs n) = None \<Longrightarrow> \<not> is_keyboard_focusable n"
  "ControlTypeName (attrs n) = Some ctn \<Longrightarrow>
     ctn \<notin> set [''EditControl'', ''ButtonControl'', ''CheckBoxControl'',
                  ''RadioButtonControl'', ''TabItemControl''] \<Longrightarrow>
     IsKeyboardFocusable (attrs n) = None \<Longrightarrow> \<not> is_keyboard_focusable n"
  by (simp_all add: is_keyboard_focusable_def except_False_def)

lemma scrollable_closed:
  "ControlTypeName (attrs n) = None \<Longrightarrow> \<not> is_element_scrollable n"
  "IsOffscreen (attrs n) = None \<Longrightarrow> \<not> is_element_scrollable n"
  "GetScrollPattern (attrs n) = None \<Longrightarrow> \<not> is_element_scrollable n"
  "GetScrollPattern (attrs n) = Some (Some sp) \<Longrightarrow> VerticallyScrollable sp = None \<Longrightarrow>
     \<not> is_element_scrollable n"
  by (auto simp: is_element_scrollable_def except_False_def
      split: option.splits Option.bind_splits if_splits)

lemma visible_closed:
  "IsControlElement (attrs n) = None \<or> BoundingRectangle (attrs n) = None \<or>
   IsOffscreen (attrs n) = None \<Longrightarrow> is_element_visible n = None \<or> is_element_visible n = Some False"
  by (auto simp: is_element_visible_def Let_def split: Option.bind_splits if_splits)

lemma interactive_unfold:
  "ControlTypeName (attrs n) = Some ctn \<Longrightarrow> \<not> image_rule br n \<Longrightarrow> is_element_interactive br n \<Longrightarrow>
     (ctn \<in> set INTERACTIVE_CONTROL_TYPE_NAMES \<union> set DOCUMENT_CONTROL_TYPE_NAMES
        \<and> is_element_visible n = Some True \<and> is_element_enabled n
        \<and> (\<exists>image. is_element_image n = Some image))
     \<or> (ctn = ''GroupControl'' \<and> br \<and> is_element_visible n = Some True \<and> is_element_enabled n
        \<and> (\<exists>da. is_default_action n = Some da))"
  unfolding is_element_interactive_def image_rule_def except_False_def
  by (simp split: if_splits option.splits Option.bind_splits)

lemma interactive_closed:
  "ControlTypeName (attrs n) = None \<Longrightarrow> \<not> is_element_interactive br n"
  "\<not> image_rule br n \<Longrightarrow>
     IsEnabled (attrs n) = None \<or> IsControlElement (attrs n) = None \<or>
     BoundingRectangle (attrs n) = None \<or> IsOffscreen (attrs n) = None \<Longrightarrow>
     \<not> is_element_interactive br n"
  "ControlTypeName (attrs n) = Some ctn \<Longrightarrow>
     ctn \<in> set INTERACTIVE_CONTROL_TYPE_NAMES \<union> set DOCUMENT_CONTROL_TYPE_NAMES \<Longrightarrow>
     is_element_image n = None \<Longrightarrow> \<not> is_element_interactive br n"
  "ControlTypeName (attrs n) = Some ''GroupControl'' \<Longrightarrow> is_default_action n = None \<Longrightarrow>
     \<not> is_element_interactive br n"
proof -
  show "ControlTypeName (attrs n) = None \<Longrightarrow> \<not> is_element_interactive br n"
    by (simp add: is_element_interactive_def except_False_def)
  show "\<not> is_element_interactive br n"
    if r: "\<not> image_rule br n" and e: "IsEnabled (attrs n) = None \<or> IsControlElement (attrs n) = None \<or>
     BoundingRectangle (attrs n) = None \<or> IsOffscreen (attrs n) = None"
  proof (cases "ControlTypeName (attrs n)")
    case None
    then show ?thesis by (simp add: is_element_interactive_def except_False_def)
  next
    case (Some ctn)
    from e enabled_closed visible_closed
    have "\<not> (is_element_visible n = Some True \<and> is_element_enabled n)"
      by (metis option.distinct(1) option.inject)
    with interactive_unfold [OF Some r] show ?thesis by blast
  qed
  show "\<not> is_element_interactive br n"
    if c: "ControlTypeName (attrs n) = Some ctn"
      and t: "ctn \<in> set INTERACTIVE_CONTROL_TYPE_NAMES \<union> set DOCUMENT_CONTROL_TYPE_NAMES"
      and i: "is_element_image n = None"
  proof -
    from t have "ctn \<noteq> ''ImageControl''" "ctn \<noteq> ''GroupControl''"
      by (auto simp: INTERACTIVE_CONTROL_TYPE_NAMES_def DOCUMENT_CONTROL_TYPE_NAMES_def)
    with c have "\<not> image_rule br n" by (simp add: image_rule_def)
    from interactive_unfold [OF c this] i \<open>ctn \<noteq> ''GroupControl''\<close> show ?thesis by auto
  qed
  show "\<not> is_element_interactive br n"
    if c: "ControlTypeName (attrs n) = Some ''GroupControl''" and d: "is_default_action n = None"
  proof -
    from c have "\<not> image_rule br n" by (simp add: image_rule_def)
    from interactive_unfold [OF c this] d show ?thesis
      by (auto simp: INTERACTIVE_CONTROL_TYPE_NAMES_def DOCUMENT_CONTROL_TYPE_NAMES_def)
  qed
qed

subsection \<open>Evaluation of the model on the example inputs\<close>

lemmas classifier_defs =
  is_element_scrollable_def is_element_interactive_def is_element_text_def
  is_keyboard_focusable_def is_element_visible_def is_element_enabled_def is_element_image_def
  is_default_action_def is_window_modal_def element_has_child_element_def except_False_def
  INTERACTIVE_CONTROL_TYPE_NAMES_def INFORMATIVE_CONTROL_TYPE_NAMES_def
  DOCUMENT_CONTROL_TYPE_NAMES_def DEFAULT_ACTIONS_def
  isempty_def rect_width_def rect_height_def GetFirstChildControl_def

lemmas string_defs =
  strip_def is_space_def whitespace_def title_def capitalize_def upper_def lower_def
  is_lower_def is_upper_def ascii_lowercase_def ascii_uppercase_def

lemmas traversal_defs =
  get_nodes_def get_nodes_env_def get_nodes_result_def is_app_browser_def window_app_name_def
  should_skip_def visit_node_def append_scrollable_def append_classified_def
  scroll_element_def scroll_name_def tree_element_def enter_child_def is_root_web_area_def
  dialog_clear_def dom_info_of_def dom_correction_def group_correction_def link_correction_def
  group_element_def link_element_def pop_def
  iou_bounding_box_def zero_box_def box_of_rect_def box_as_rect_def get_center_def
  empty_buffers_def screen_box_of_def

lemmas engine_defs =
  get_state_def root_enumeration_def get_appwise_nodes_def tree_timeout_def initial_join_def
  submit_get_nodes_def handle_completion_def timed_out_def THREAD_MAX_RETRIES_def init_tree_def

lemma default_config_simps:
  "TREE_STATE_TIMEOUT_S default_config = 6" "TREE_STATE_TIMEOUT_DOM_S default_config = 10"
  "ROOT_ENUM_TIMEOUT_S default_config = 2" "UIA_TIMEOUT_COOLDOWN_S default_config = 15"
  "BROWSER_NAMES default_config = []" "EXCLUDED_APPS default_config = []"
  "exclude_system_windows default_config = False"
  by (simp_all add: default_config_def)

lemma button_nodes:
  "get_nodes default_config (screen_box_of 1920 1080) button None False sh =
     (Some ([ok_element ''OK''], [], []), sh)"
  by (simp add: traversal_defs classifier_defs string_defs button_def example_attrs_def
      default_config_def ok_element_def Let_def)

lemma scroll_pane_nodes:
  "get_nodes default_config (screen_box_of 1920 1080) scroll_pane None False sh =
     (Some ([], [\<lparr>sen_name = ''List'', sen_control_type = ''Pane'', sen_app_name = ''List'',
           sen_bounding_box = \<lparr>bb_left = - 10, bb_top = 0, bb_right = 100, bb_bottom = 50,
                                bb_width = 110, bb_height = 50\<rparr>,
           sen_center = \<lparr>center_x = 50, center_y = 25\<rparr>,
           sen_horizontal_scrollable = False, sen_horizontal_scroll_percent = 0,
           sen_vertical_scrollable = True, sen_vertical_scroll_percent = 25,
           sen_is_focused = False\<rparr>], []), sh)"
  by (simp add: traversal_defs classifier_defs string_defs scroll_pane_def example_attrs_def
      example_scroll_pattern_def default_config_def Let_def)

lemma button_handle: "NativeWindowHandle (attrs button) = Some 1"
  by (simp add: button_def example_attrs_def)

lemma scroll_pane_handle: "NativeWindowHandle (attrs scroll_pane) = Some 1"
  by (simp add: scroll_pane_def example_attrs_def)

lemma button_snapshot:
  "ts_interactive_nodes (fst (get_state default_config (init_tree 1920 1080) None [] False
      (one_window_world button))) = [ok_element ''OK'']"
  by (simp add: engine_defs one_window_world_def button_nodes button_handle Let_def
      default_config_simps)

lemma offscreen_pane_skipped: "should_skip offscreen_pane = Some True"
  by (simp add: should_skip_def offscreen_pane_def example_attrs_def)

lemma timeout_world_tree:
  "fst (snd (get_state default_config (init_tree 1920 1080) None [] False timeout_world))
     = (init_tree 1920 1080)\<lparr>uia_disabled_until := 117\<rparr>"
  by (simp add: engine_defs timeout_world_def default_config_simps Let_def)

lemma broken_window_nodes:
  "get_nodes cfg scr broken_window None ud sh = (None, sh)"
  by (simp add: get_nodes_def get_nodes_env_def broken_window_def example_attrs_def Let_def)

lemma failing_join:
  "j_calls (get_appwise_nodes default_config scr [0] False 101 failing_rounds no_shared [])
     = [Submit_get_nodes 0, Submit_get_nodes 0, Submit_get_nodes 0]"
  "j_is_partial (get_appwise_nodes default_config scr [0] False 101 failing_rounds no_shared [])"
  "j_warnings (get_appwise_nodes default_config scr [0] False 101 failing_rounds no_shared [])
     = [Subtrees_failed]"
  "future_to_app (get_appwise_nodes default_config scr [0] False 101 failing_rounds no_shared [])
     = []"
  "retry_counts (get_appwise_nodes default_config scr [0] False 101 failing_rounds no_shared []) 0
     = 3"
  by (simp_all add: engine_defs failing_rounds_def broken_window_nodes default_config_simps Let_def)







lemma modal_dialog_facts:
  "py_class (attrs modal_dialog) = WindowControl"
  "is_root_web_area example_env modal_dialog = Some False"
  "IsOffscreen (attrs modal_dialog) = Some False"
  "is_window_modal modal_dialog"
  by (simp_all add: modal_dialog_def example_attrs_def is_root_web_area_def example_env_def
      is_window_modal_def except_False_def)

lemma modal_dialog_traversal:
  "tree_traversal example_env modal_dialog False True b sh = (Some b, sh)"
  by (simp add: modal_dialog_def example_attrs_def should_skip_def visit_node_def
      append_scrollable_def append_classified_def classifier_defs)

section \<open>The claims\<close>

text \<open>
  C2, as the code has it. The skip test of \<open>tree_traversal\<close> returns before the node is
  classified and before its children are read: a skipped node is left out together with
  its whole subtree. The traversal of a skipped node returns at once, with every buffer
  and the captured fields unchanged, whatever lies below the node.
\<close>

theorem skipped_node_prunes_subtree:
  "should_skip node = Some True \<Longrightarrow>
     tree_traversal env node is_dom is_dialog b sh = (Some b, sh)"
  by (cases node) simp

theorem skipped_node_prunes_subtree_witness:
  "should_skip offscreen_pane = Some True \<and> kids offscreen_pane = [button] \<and>
   tree_traversal example_env offscreen_pane False False empty_buffers no_shared
     = (Some empty_buffers, no_shared)"
  using skipped_node_prunes_subtree [OF offscreen_pane_skipped,
      of example_env False False empty_buffers no_shared]
  by (simp add: offscreen_pane_skipped) (simp add: offscreen_pane_def)

text \<open>
  C2, as the spec states it, fails: the window \<open>notepad_window\<close> has one child, a pane
  that is off-screen (and neither a group, an edit box or a title bar, nor of a popup
  class), and the pane has one child, a visible and enabled button, which the classifier
  calls interactive. Were the descendants of a skipped node still visited and classified,
  the button would be in the result; the job returns three empty lists.
\<close>

theorem skipped_children_not_visited:
  "should_skip offscreen_pane = Some True \<and> kids offscreen_pane = [button] \<and>
   is_element_interactive False button \<and>
   get_nodes default_config (screen_box_of 1920 1080) notepad_window None False no_shared
     = (Some ([], [], []), no_shared)"
  by (simp add: traversal_defs classifier_defs string_defs notepad_window_def offscreen_pane_def
      button_def example_attrs_def default_config_def Let_def)

text \<open>
  C6, as the code has it. In every snapshot that \<open>get_state\<close> returns, the box of an
  interactive element comes from \<open>iou_bounding_box\<close>: its edges are in order, its width and
  height are their differences, and it is either the all-zero box or a box of positive
  area inside the screen rectangle. The box of a scrollable element is the provider's
  rectangle as it is: its width and height are the differences of its edges, and nothing
  more is promised.
\<close>

theorem snapshot_boxes:
  "(\<forall>e \<in> set (ts_interactive_nodes (fst (get_state cfg tree active_app other_apps use_dom w))).
       clipped_box (screen_box tree) (ten_bounding_box e)) \<and>
   (\<forall>s \<in> set (ts_scrollable_nodes (fst (get_state cfg tree active_app other_apps use_dom w))).
       box_dimensions (sen_bounding_box s))"
proof (cases "w_now w < uia_disabled_until tree")
  case True
  then show ?thesis by (simp add: get_state_def Let_def)
next
  case False
  obtain apps rp rw tree1 where
    r: "root_enumeration cfg tree active_app other_apps
          (min (ROOT_ENUM_TIMEOUT_S cfg) (tree_timeout cfg use_dom)) (w_root w)
         = (apps, rp, rw, tree1)"
    using prod_cases4 by blast
  have j: "join_boxes_ok scr (get_appwise_nodes cfg scr apps' use_dom st rs sh cs)"
    for scr apps' st rs sh cs
    by (rule get_appwise_nodes_invariant)
       (simp_all add: handle_completion_boxes,
        simp_all add: join_boxes_ok_def timed_out_def submit_get_nodes_def initial_join_def)
  from root_enumeration_screen [OF r] have s: "screen_box tree1 = screen_box tree" by simp
  show ?thesis
    using False r j [of "screen_box tree"]
    by (simp add: get_state_def Let_def join_boxes_ok_def s)
qed

theorem snapshot_boxes_witness:
  "ts_interactive_nodes (fst (get_state default_config (init_tree 1920 1080) None [] False
      (one_window_world button))) = [ok_element ''OK''] \<and>
   clipped_box (screen_box_of 1920 1080) (ten_bounding_box (ok_element ''OK''))"
  using snapshot_boxes [of default_config "init_tree 1920 1080" None "[]" False
      "one_window_world button"]
  by (simp add: button_snapshot) (simp add: init_tree_def)

text \<open>
  C6, as the spec states it, fails for scrollable elements: a scrollable pane that is not
  reported off-screen and whose rectangle starts at \<open>left = -10\<close> is returned with that
  rectangle, a box of positive area that does not lie inside the screen.
\<close>

theorem scrollable_box_outside_screen:
  "map sen_bounding_box (ts_scrollable_nodes (fst (get_state default_config (init_tree 1920 1080)
      None [] False (one_window_world scroll_pane)))) =
     [\<lparr>bb_left = - 10, bb_top = 0, bb_right = 100, bb_bottom = 50,
       bb_width = 110, bb_height = 50\<rparr>]
   \<and> \<not> within_screen (screen_box_of 1920 1080)
        \<lparr>bb_left = - 10, bb_top = 0, bb_right = 100, bb_bottom = 50,
         bb_width = 110, bb_height = 50\<rparr>"
proof -
  have "\<not> within_screen (screen_box_of 1920 1080)
        \<lparr>bb_left = - 10, bb_top = 0, bb_right = 100, bb_bottom = 50,
         bb_width = 110, bb_height = 50\<rparr>"
    by (simp add: within_screen_def screen_box_of_def)
  then show ?thesis
    by (simp add: engine_defs one_window_world_def scroll_pane_nodes scroll_pane_handle Let_def
        default_config_simps)
qed

text \<open>
  C9. In the snapshot of every call of \<open>get_state\<close>, \<open>is_partial\<close> holds if and only if
  the list of warnings is not empty: the breaker, the root enumeration, the fallback and
  the join set the flag and append a warning together, and nothing else touches either.
\<close>

theorem partial_iff_warnings:
  "is_partial (fst (get_state cfg tree active_app other_apps use_dom w))
     \<longleftrightarrow> warnings (fst (get_state cfg tree active_app other_apps use_dom w)) \<noteq> []"
proof (cases "w_now w < uia_disabled_until tree")
  case True
  then show ?thesis by (simp add: get_state_def Let_def)
next
  case False
  obtain apps rp rw tree1 where
    r: "root_enumeration cfg tree active_app other_apps
          (min (ROOT_ENUM_TIMEOUT_S cfg) (tree_timeout cfg use_dom)) (w_root w)
         = (apps, rp, rw, tree1)"
    using prod_cases4 by blast
  have j: "partial_iff_warned (get_appwise_nodes cfg scr apps' use_dom st rs sh cs)"
    for scr apps' st rs sh cs
    by (rule get_appwise_nodes_invariant)
       (simp_all add: handle_completion_warned,
        simp_all add: partial_iff_warned_def timed_out_def submit_get_nodes_def initial_join_def)
  from root_enumeration_warned [OF r] have "rp \<longleftrightarrow> rw \<noteq> []" .
  with False r j show ?thesis
    by (auto simp: get_state_def Let_def partial_iff_warned_def)
qed

text \<open>
  C4. A call that is not short-circuited and whose root enumeration times out, the handler
  reading the clock at \<open>T\<close>, sets \<open>disabledUntil\<close> to \<open>T + C\<close>, for the cooldown
  \<open>C\<close>. A later call at a time in \<open>[T, T + C)\<close> returns the empty snapshot with
  \<open>is_partial\<close> set and one warning that cites the remaining cooldown \<open>T + C - now\<close>;
  it submits nothing to the executor and leaves the object as it was (so the same holds
  for the call after it). A later call at a time \<open>\<ge> T + C\<close> submits the root
  enumeration again.
\<close>

theorem breaker_cooldown:
  assumes "\<not> w_now w < uia_disabled_until tree"
    and "w_root w = Root_timeout T" and "w_now w \<le> T"
  shows "(T \<le> w_now w2 \<and> w_now w2 < T + UIA_TIMEOUT_COOLDOWN_S cfg \<longrightarrow>
            get_state cfg (fst (snd (get_state cfg tree aa oa ud w))) aa2 oa2 ud2 w2 =
              (short_circuit (T + UIA_TIMEOUT_COOLDOWN_S cfg - w_now w2),
               fst (snd (get_state cfg tree aa oa ud w)), []))
       \<and> (T \<le> w_now w2 \<and> T + UIA_TIMEOUT_COOLDOWN_S cfg \<le> w_now w2 \<longrightarrow>
            (\<exists>rest. snd (snd (get_state cfg (fst (snd (get_state cfg tree aa oa ud w)))
                                aa2 oa2 ud2 w2)) = Submit_collect_targets # rest))"
proof -
  let ?tree' = "fst (snd (get_state cfg tree aa oa ud w))"
  let ?C = "UIA_TIMEOUT_COOLDOWN_S cfg"
  have u: "uia_disabled_until ?tree' = max (uia_disabled_until tree) (T + ?C)"
    using get_state_breaker_closed(2) [OF assms(1), of cfg aa oa ud] assms(2) by simp
  have old: "uia_disabled_until tree \<le> T" using assms(1,3) by simp
  show ?thesis
  proof (intro conjI impI)
    assume a: "T \<le> w_now w2 \<and> w_now w2 < T + ?C"
    with old have "uia_disabled_until ?tree' = T + ?C" by (simp add: u max_def)
    moreover from this a have "w_now w2 < uia_disabled_until ?tree'" by simp
    ultimately show "get_state cfg ?tree' aa2 oa2 ud2 w2 = (short_circuit (T + ?C - w_now w2), ?tree', [])"
      using get_state_breaker_open [of w2 ?tree' cfg aa2 oa2 ud2] by simp
  next
    assume a: "T \<le> w_now w2 \<and> T + ?C \<le> w_now w2"
    with old have "\<not> w_now w2 < uia_disabled_until ?tree'" by (simp add: u max_def)
    from get_state_breaker_closed(1) [OF this]
    show "\<exists>rest. snd (snd (get_state cfg ?tree' aa2 oa2 ud2 w2)) = Submit_collect_targets # rest" .
  qed
qed

theorem breaker_cooldown_witness:
  "get_state default_config ((init_tree 1920 1080)\<lparr>uia_disabled_until := 117\<rparr>) None [] False
      ((one_window_world button)\<lparr>w_now := 110\<rparr>)
     = (short_circuit 7, (init_tree 1920 1080)\<lparr>uia_disabled_until := 117\<rparr>, [])
   \<and> (\<exists>rest. snd (snd (get_state default_config ((init_tree 1920 1080)\<lparr>uia_disabled_until := 117\<rparr>)
                 None [] False ((one_window_world button)\<lparr>w_now := 117\<rparr>)))
          = Submit_collect_targets # rest)"
  using breaker_cooldown [of timeout_world "init_tree 1920 1080" 102
      "(one_window_world button)\<lparr>w_now := 110\<rparr>" default_config None "[]" False None "[]" False]
    breaker_cooldown [of timeout_world "init_tree 1920 1080" 102
      "(one_window_world button)\<lparr>w_now := 117\<rparr>" default_config None "[]" False None "[]" False]
  by (simp add: timeout_world_tree default_config_simps)
     (simp add: timeout_world_def init_tree_def)

text \<open>
  C10. \<open>disabledUntil\<close> after a call of \<open>get_state\<close> is its value before the call,
  except when the call was not short-circuited and its root enumeration timed out: then it
  is the maximum of the old value and the handler's clock plus the cooldown. So it never
  decreases, and what the jobs of the windows and the join do (the rounds of the world)
  has no part in it. After a call that ran and whose root enumeration did not time out,
  whatever failed in its join, the next call submits the root enumeration again.
\<close>

theorem breaker_written_only_on_root_timeout:
  "uia_disabled_until (fst (snd (get_state cfg tree aa oa ud w))) =
     (case w_root w of
        Root_timeout t \<Rightarrow>
          if w_now w < uia_disabled_until tree then uia_disabled_until tree
          else max (uia_disabled_until tree) (t + UIA_TIMEOUT_COOLDOWN_S cfg)
      | _ \<Rightarrow> uia_disabled_until tree)
   \<and> uia_disabled_until tree \<le> uia_disabled_until (fst (snd (get_state cfg tree aa oa ud w)))
   \<and> (\<not> w_now w < uia_disabled_until tree \<and> (\<forall>t. w_root w \<noteq> Root_timeout t) \<and> w_now w \<le> w_now w2
        \<longrightarrow> (\<exists>rest. snd (snd (get_state cfg (fst (snd (get_state cfg tree aa oa ud w)))
                                aa2 oa2 ud2 w2)) = Submit_collect_targets # rest))"
proof (cases "w_now w < uia_disabled_until tree")
  case True
  then show ?thesis
    by (simp add: get_state_breaker_open split: root_result.splits)
next
  case False
  note u = get_state_breaker_closed(2) [OF False, of cfg aa oa ud]
  have 1: "uia_disabled_until tree \<le> uia_disabled_until (fst (snd (get_state cfg tree aa oa ud w)))"
    by (simp add: u split: root_result.splits)
  have 2: "\<exists>rest. snd (snd (get_state cfg (fst (snd (get_state cfg tree aa oa ud w)))
                                aa2 oa2 ud2 w2)) = Submit_collect_targets # rest"
    if "\<forall>t. w_root w \<noteq> Root_timeout t" "w_now w \<le> w_now w2"
  proof -
    from that(1) have "uia_disabled_until (fst (snd (get_state cfg tree aa oa ud w))) = uia_disabled_until tree"
      by (simp add: u split: root_result.splits)
    with False that(2) have "\<not> w_now w2 < uia_disabled_until (fst (snd (get_state cfg tree aa oa ud w)))"
      by simp
    from get_state_breaker_closed(1) [OF this] show ?thesis .
  qed
  from False u 1 2 show ?thesis by (simp split: root_result.splits)
qed

theorem breaker_written_only_on_root_timeout_witness:
  "uia_disabled_until (fst (snd (get_state default_config (init_tree 1920 1080) None [] False
      failing_world))) = 0
   \<and> (\<exists>rest. snd (snd (get_state default_config
          (fst (snd (get_state default_config (init_tree 1920 1080) None [] False failing_world)))
          None [] False (one_window_world button))) = Submit_collect_targets # rest)"
  using breaker_written_only_on_root_timeout [of default_config "init_tree 1920 1080" None "[]"
      False failing_world "one_window_world button" None "[]" False]
  by (simp add: failing_world_def one_window_world_def init_tree_def)

text \<open>
  C5, as the code has it. When the job of window \<open>a\<close> raises, its retry counter is
  incremented. If the counter is then below \<open>THREAD_MAX_RETRIES = 3\<close> and budget remains,
  the job is submitted again and neither the flag nor the warnings change; otherwise the
  job is dropped, the result is marked partial and the warning \<open>Subtrees_failed\<close> is
  appended, a constant that carries nothing of the node. Over a whole join a window is
  therefore submitted at most twice more than at the start: it runs at most three times
  and is resubmitted at most two times, after its first and its second failure.
\<close>

theorem failed_job_resubmitted_twice:
  assumes "get_nodes cfg scr (c_view c) None use_dom (j_shared j) = (None, sh)"
  shows "(retry_counts j a + 1 < THREAD_MAX_RETRIES \<and> 0 < deadline - c_now c \<longrightarrow>
            future_to_app (handle_completion cfg scr use_dom deadline c a j)
              = filter (\<lambda>(f, _). f \<noteq> c_future c) (future_to_app j) @ [(next_future j, a)]
            \<and> j_calls (handle_completion cfg scr use_dom deadline c a j)
                = j_calls j @ [Submit_get_nodes a]
            \<and> j_is_partial (handle_completion cfg scr use_dom deadline c a j) = j_is_partial j
            \<and> j_warnings (handle_completion cfg scr use_dom deadline c a j) = j_warnings j)
       \<and> (\<not> (retry_counts j a + 1 < THREAD_MAX_RETRIES \<and> 0 < deadline - c_now c) \<longrightarrow>
            future_to_app (handle_completion cfg scr use_dom deadline c a j)
              = filter (\<lambda>(f, _). f \<noteq> c_future c) (future_to_app j)
            \<and> j_calls (handle_completion cfg scr use_dom deadline c a j) = j_calls j
            \<and> j_is_partial (handle_completion cfg scr use_dom deadline c a j)
            \<and> j_warnings (handle_completion cfg scr use_dom deadline c a j)
                = j_warnings j @ [Subtrees_failed])
       \<and> retry_counts (handle_completion cfg scr use_dom deadline c a j) a = retry_counts j a + 1
       \<and> count_list (j_calls (get_appwise_nodes cfg scr apps use_dom start rounds sh0 []))
            (Submit_get_nodes b) \<le> count_list apps b + (THREAD_MAX_RETRIES - 1)"
  using assms submissions_bounded [of cfg scr apps use_dom start rounds sh0 b]
  by (simp add: handle_completion_def submit_get_nodes_def Let_def THREAD_MAX_RETRIES_def)

theorem failed_job_resubmitted_twice_witness:
  "j_calls (handle_completion default_config (screen_box_of 1920 1080) False 107
             \<lparr>c_future = 0, c_view = broken_window, c_now = 102\<rparr> 0
             (submit_get_nodes 0 (initial_join no_shared [])))
     = [Submit_get_nodes 0, Submit_get_nodes 0]"
proof -
  have raised: "get_nodes default_config (screen_box_of 1920 1080)
        (c_view \<lparr>c_future = 0, c_view = broken_window, c_now = 102\<rparr>) None False
        (j_shared (submit_get_nodes 0 (initial_join no_shared []))) = (None, no_shared)"
    by (simp add: broken_window_nodes submit_get_nodes_def initial_join_def)
  from failed_job_resubmitted_twice [OF raised, of 0 107]
  show ?thesis
    by (simp add: submit_get_nodes_def initial_join_def THREAD_MAX_RETRIES_def)
qed

text \<open>
  C5, as the spec states it, fails: the job of one window raises three times, each time
  well within the budget (the deadline is at 107, the last failure is handled at 104).
  It is submitted three times in all, that is resubmitted twice, and then dropped with the
  warning: a third resubmission, for which budget remains, does not happen.
\<close>

theorem third_failure_drops_job:
  "j_calls (get_appwise_nodes default_config (screen_box_of 1920 1080) [0] False 101
             failing_rounds no_shared [])
     = [Submit_get_nodes 0, Submit_get_nodes 0, Submit_get_nodes 0]
   \<and> j_is_partial (get_appwise_nodes default_config (screen_box_of 1920 1080) [0] False 101
             failing_rounds no_shared [])
   \<and> j_warnings (get_appwise_nodes default_config (screen_box_of 1920 1080) [0] False 101
             failing_rounds no_shared []) = [Subtrees_failed]
   \<and> (0::real) < 101 + TREE_STATE_TIMEOUT_S default_config - 104"
  by (simp add: failing_join default_config_simps)







text \<open>
  C7. The verdicts of the classifier are total functions into \<open>bool\<close>: no error leaves
  them. A node whose enabled flag raises is not enabled. A node whose control type
  raises, or whose focusable flag raises when the control type does not decide, is not
  keyboard-focusable. A node is not scrollable when its control type, its off-screen flag,
  its scroll pattern or the pattern's vertical flag raises. A node is not interactive when
  its control type raises; nor, unless the rule for focusable images outside a browser
  decides before any of them is read, when its enabled flag, its control-element flag, its
  rectangle or its off-screen flag raises; nor when the image test raises for a node of an
  interactive or document type, or the default-action test for a group.
\<close>

theorem classifier_fails_closed:
  "(IsEnabled (attrs n) = None \<longrightarrow> \<not> is_element_enabled n)
   \<and> (ControlTypeName (attrs n) = None \<longrightarrow> \<not> is_keyboard_focusable n)
   \<and> (ControlTypeName (attrs n) = Some ctn
        \<and> ctn \<notin> set [''EditControl'', ''ButtonControl'', ''CheckBoxControl'',
                      ''RadioButtonControl'', ''TabItemControl'']
        \<and> IsKeyboardFocusable (attrs n) = None \<longrightarrow> \<not> is_keyboard_focusable n)
   \<and> (ControlTypeName (attrs n) = None \<or> IsOffscreen (attrs n) = None
        \<or> GetScrollPattern (attrs n) = None
        \<or> (GetScrollPattern (attrs n) = Some (Some sp) \<and> VerticallyScrollable sp = None)
        \<longrightarrow> \<not> is_element_scrollable n)
   \<and> (ControlTypeName (attrs n) = None \<longrightarrow> \<not> is_element_interactive is_browser n)
   \<and> (\<not> image_rule is_browser n
        \<and> (IsEnabled (attrs n) = None \<or> IsControlElement (attrs n) = None
            \<or> BoundingRectangle (attrs n) = None \<or> IsOffscreen (attrs n) = None)
        \<longrightarrow> \<not> is_element_interactive is_browser n)
   \<and> (ControlTypeName (attrs n) = Some ctn
        \<and> ctn \<in> set INTERACTIVE_CONTROL_TYPE_NAMES \<union> set DOCUMENT_CONTROL_TYPE_NAMES
        \<and> is_element_image n = None \<longrightarrow> \<not> is_element_interactive is_browser n)
   \<and> (ControlTypeName (attrs n) = Some ''GroupControl'' \<and> is_default_action n = None
        \<longrightarrow> \<not> is_element_interactive is_browser n)"
  using enabled_closed [of n] focusable_closed [where n = n] scrollable_closed [where n = n]
    interactive_closed [where n = n and br = is_browser]
  by blast

theorem classifier_fails_closed_witness:
  "is_element_interactive False button \<and> \<not> is_element_enabled unreadable_button
   \<and> \<not> is_element_interactive False unreadable_button
   \<and> is_element_scrollable scroll_pane \<and> \<not> is_element_scrollable unreadable_pane"
proof -
  have "is_element_interactive False button"
    by (simp add: classifier_defs button_def example_attrs_def)
  moreover have "is_element_scrollable scroll_pane"
    by (simp add: classifier_defs scroll_pane_def example_attrs_def example_scroll_pattern_def)
  moreover have "IsEnabled (attrs unreadable_button) = None"
    and "\<not> image_rule False unreadable_button"
    by (simp_all add: unreadable_button_def image_rule_def example_attrs_def)
  moreover have "GetScrollPattern (attrs unreadable_pane) = None"
    by (simp add: unreadable_pane_def)
  ultimately show ?thesis
    using classifier_fails_closed [of unreadable_button _ _ False]
      classifier_fails_closed [of unreadable_pane]
    by blast
qed

text \<open>
  C8, as the code has it. The loop over the children tests first whether the child is the
  root content area of a browser, and only a child that is not goes on to the test for a
  window. For a \<open>WindowControl\<close> child that is on the screen and is not taken as the root
  content area: outside a document the interactive results of the window so far are
  cleared if the child reports itself modal; inside a document the dom-interactive results
  so far are cleared if the child is wider than 0.8 times the captured viewport; in both
  cases the traversal then enters the child, which the skip rule does not skip, and goes
  on with the remaining children.
\<close>

theorem window_child_clears_then_recurses:
  assumes "py_class (attrs child) = WindowControl"
    and "is_root_web_area env child = Some False"
    and "IsOffscreen (attrs child) = Some False"
  shows "traverse_children env False is_dialog (child # rest) b sh =
           (case tree_traversal env child False True
                   (if is_window_modal child then b\<lparr>interactive_nodes := []\<rparr> else b) sh of
              (None, sh2) \<Rightarrow> (None, sh2)
            | (Some b2, sh2) \<Rightarrow> traverse_children env False is_dialog rest b2 sh2)
       \<and> (BoundingRectangle (attrs child) = Some r \<and> dom_bounding_box sh = Some viewport \<longrightarrow>
            traverse_children env True is_dialog (child # rest) b sh =
              (case tree_traversal env child True True
                      (if real_of_int (rect_width r) > 0.8 * real_of_int (bb_width viewport)
                       then b\<lparr>dom_interactive_nodes := []\<rparr> else b) sh of
                 (None, sh2) \<Rightarrow> (None, sh2)
               | (Some b2, sh2) \<Rightarrow> traverse_children env True is_dialog rest b2 sh2))
       \<and> should_skip child = Some False"
  using assms
  by (simp add: enter_child_def dialog_clear_def should_skip_def)

theorem window_child_clears_then_recurses_witness:
  "traverse_children example_env False False [modal_dialog] one_element_buffers no_shared
     = (Some empty_buffers, no_shared)"
  using window_child_clears_then_recurses [OF modal_dialog_facts(1-3),
      of False "[]" one_element_buffers no_shared]
  by (simp add: modal_dialog_facts(4) modal_dialog_traversal one_element_buffers_def
      empty_buffers_def)

text \<open>
  C8, as the spec states it, fails for a window-type child that is also the root content
  area of a browser: \<open>modal_root\<close> is a \<open>WindowControl\<close> on the screen that reports itself
  modal, and in a browser window outside a document the loop takes it as the document
  root. The interactive element collected before it is still there after the child has
  been walked.
\<close>

theorem modal_document_root_clears_nothing:
  "py_class (attrs modal_root) = WindowControl \<and> IsOffscreen (attrs modal_root) = Some False
   \<and> is_window_modal modal_root
   \<and> map_option interactive_nodes
        (fst (traverse_children browser_env False False [modal_root] one_element_buffers no_shared))
       = Some [ok_element ''Notepad'']"
  by (simp add: modal_root_def modal_dialog_def example_attrs_def browser_env_def example_env_def
      one_element_buffers_def empty_buffers_def no_shared_def example_scroll_pattern_def
      enter_child_def is_root_web_area_def dom_info_of_def should_skip_def visit_node_def
      append_scrollable_def append_classified_def classifier_defs box_of_rect_def)

end
